theory Spec2Isabelle
  imports Complex_Main "HOL-Library.AList"
begin

section \<open>Common vocabulary\<close>

text \<open>
  The pipeline is Python. A floating-point number is the rational (\<open>rat\<close>) it denotes. In
  the snapshot builders and the volume extractor the float operations are taken to be
  exact; in the pricing engine, where a comparison of floats decides the control flow, the
  rounding of each operation is a parameter (see there). Python's unbounded integers are
  \<open>int\<close> or, for the unsigned 256-bit quantities decoded from the chain, \<open>nat\<close>.
  Addresses are strings in checksum form, so \<open>Web3.toChecksumAddress\<close> is the identity on
  them. Every exception of the source is a value of \<open>py_error\<close>; a function that can raise
  returns \<open>py_error + 'a\<close> with \<open>Inl\<close> for the exception.
\<close>

type_synonym address = string

datatype py_error =
    TypeError
  | KeyError
  | IndexError
  | ValueError
  | AttributeError
  | ZeroDivisionError
  | RedisException
  | RPCFailure
  | ExhaustedApiKeyRateLimit
  | UnableToGetReserves
  | UnableToGetDerivedEth

section \<open>Rate-limit gate of \<open>uniswap_functions.py\<close>\<close>

text \<open>
  One entry per element of \<open>PARSED_LIMITS\<close>: what \<open>custom_limiter.hit\<close> does for that limit
  and, when it is consulted, what \<open>custom_limiter.get_window_stats\<close> does. \<open>RaisedListed\<close>
  is an exception of one of the classes the handler names (the aioredis connection, timeout
  and response errors), \<open>RaisedOther\<close> any other exception.
\<close>

datatype 'a outcome = Returned 'a | RaisedListed | RaisedOther py_error

record limit_check =
  hit :: "bool outcome"
  get_window_stats :: "unit outcome"

text \<open>
  The loop \<open>for each_lim in PARSED_LIMITS\<close> (lines 612-638 and 731-754), with the flag
  \<open>can_request\<close> threaded through. The \<open>else\<close> branch of the \<open>try\<close> sets the flag only when
  the body raised nothing; a listed exception is logged at debug level and the loop goes on
  with the flag unchanged; \<open>hit\<close> returning \<open>False\<close> clears the flag and breaks.
\<close>

fun check_limits :: "limit_check list \<Rightarrow> bool \<Rightarrow> py_error + bool" where
  "check_limits [] can_request = Inr can_request"
| "check_limits (each_lim # rest) can_request =
     (case hit each_lim of
        Returned False \<Rightarrow>
          (case get_window_stats each_lim of
             Returned _ \<Rightarrow> Inr False
           | RaisedListed \<Rightarrow> check_limits rest can_request
           | RaisedOther e \<Rightarrow> Inl e)
      | Returned True \<Rightarrow> check_limits rest True
      | RaisedListed \<Rightarrow> check_limits rest can_request
      | RaisedOther e \<Rightarrow> Inl e)"

record token_metadata =
  tok_address :: address
  tok_symbol :: string
  tok_decimals :: nat

record pair_metadata =
  token0 :: token_metadata
  token1 :: token_metadata

text \<open>
  What the outside world answers during one call of
  \<open>get_liquidity_of_each_token_reserve_async\<close>: the script load, the limiter, the block
  header, the pair metadata (\<open>None\<close> is the empty dictionary that
  \<open>get_pair_per_token_metadata\<close> returns after an exception), \<open>getReserves\<close> at each of the
  three attempts, and the two cached prices (\<open>None\<close> when the key is absent).
\<close>

record liquidity_env =
  load_rate_limiter_scripts :: "py_error + unit"
  PARSED_LIMITS :: "limit_check list"
  get_block :: "int \<Rightarrow> py_error + int"
  get_pair_per_token_metadata :: "address \<Rightarrow> pair_metadata option"
  getReserves :: "address \<Rightarrow> int \<Rightarrow> nat \<Rightarrow> py_error + (nat \<times> nat)"
  cached_token0Price :: "rat option"
  cached_token1Price :: "rat option"

record reserve_total =
  rt_token0 :: rat
  rt_token1 :: rat
  rt_token0USD :: rat
  rt_token1USD :: rat
  rt_timestamp :: "int option"

text \<open>\<open>AsyncRetrying(reraise=True, stop=stop_after_attempt(3))\<close>: the first attempt that does
  not raise ends the loop; the third exception is re-raised.\<close>

definition retry3 :: "(nat \<Rightarrow> py_error + 'a) \<Rightarrow> py_error + 'a" where
  "retry3 f =
     (case f 0 of Inr r \<Rightarrow> Inr r
      | Inl _ \<Rightarrow> (case f 1 of Inr r \<Rightarrow> Inr r
                  | Inl _ \<Rightarrow> f 2))"

definition get_liquidity_of_each_token_reserve_async ::
  "liquidity_env \<Rightarrow> address \<Rightarrow> int \<Rightarrow> bool \<Rightarrow> py_error + reserve_total" where
  "get_liquidity_of_each_token_reserve_async env pair_address block_identifier fetch_timestamp =
     (case load_rate_limiter_scripts env of Inl e \<Rightarrow> Inl e
      | Inr _ \<Rightarrow>
     (case check_limits (PARSED_LIMITS env) False of Inl e \<Rightarrow> Inl e
      | Inr can_request \<Rightarrow>
        if can_request then
          (let block_details =
                 (if fetch_timestamp
                  then (case get_block env block_identifier of
                          Inl _ \<Rightarrow> None | Inr ts \<Rightarrow> Some ts)
                  else None);
               pair_per_token_metadata = get_pair_per_token_metadata env pair_address
           in case retry3 (getReserves env pair_address block_identifier) of
                Inl e \<Rightarrow> Inl e
              | Inr reserves \<Rightarrow>
                (case pair_per_token_metadata of
                   None \<Rightarrow> Inl KeyError
                 | Some md \<Rightarrow>
                   (let token0Amount = of_nat (fst reserves) / 10 ^ tok_decimals (token0 md);
                        token1Amount = of_nat (snd reserves) / 10 ^ tok_decimals (token1 md);
                        token0USD = (case cached_token0Price env of
                                       Some p \<Rightarrow> token0Amount * p | None \<Rightarrow> 0);
                        token1USD = (case cached_token1Price env of
                                       Some p \<Rightarrow> token1Amount * p | None \<Rightarrow> 0)
                    in Inr \<lparr> rt_token0 = token0Amount, rt_token1 = token1Amount,
                             rt_token0USD = token0USD, rt_token1USD = token1USD,
                             rt_timestamp = block_details \<rparr>)))
        else Inl ExhaustedApiKeyRateLimit))"

section \<open>Event decoding and trade volume (\<open>uniswap_functions.py\<close>)\<close>

datatype event_name = Swap | Mint | Burn

text \<open>
  The decoded arguments of a log, in the order of the event signatures
  \<open>Swap(address,uint256,uint256,uint256,uint256,address)\<close>, \<open>Mint(address,uint256,uint256)\<close>
  and \<open>Burn(address,uint256,uint256,address)\<close>: sender, amount0In, amount1In, amount0Out,
  amount1Out, to; sender, amount0, amount1; sender, amount0, amount1, to.
\<close>

datatype event_args =
    SwapArgs address nat nat nat nat address
  | MintArgs address nat nat
  | BurnArgs address nat nat address

record event_log =
  ev_event :: event_name
  ev_args :: event_args
  transactionHash :: string
  logIndex :: nat
  blockNumber :: nat

text \<open>\<open>log.args.get(field)\<close> for the integer fields: \<open>None\<close> when the event has no such
  field.\<close>

fun args_get :: "event_args \<Rightarrow> string \<Rightarrow> nat option" where
  "args_get (SwapArgs s a0i a1i a0o a1o t) f =
     (if f = ''amount0In'' then Some a0i
      else if f = ''amount1In'' then Some a1i
      else if f = ''amount0Out'' then Some a0o
      else if f = ''amount1Out'' then Some a1o
      else None)"
| "args_get (MintArgs s a0 a1) f =
     (if f = ''amount0'' then Some a0 else if f = ''amount1'' then Some a1 else None)"
| "args_get (BurnArgs s a0 a1 t) f =
     (if f = ''amount0'' then Some a0 else if f = ''amount1'' then Some a1 else None)"

fun args_sender :: "event_args \<Rightarrow> string" where
  "args_sender (SwapArgs s a0i a1i a0o a1o t) = s"
| "args_sender (MintArgs s a0 a1) = s"
| "args_sender (BurnArgs s a0 a1 t) = s"

fun args_to :: "event_args \<Rightarrow> string" where
  "args_to (SwapArgs s a0i a1i a0o a1o t) = t"
| "args_to (MintArgs s a0 a1) = []"
| "args_to (BurnArgs s a0 a1 t) = t"

text \<open>
  The loop of lines 307-319 over the parsed logs. The state is \<open>token0_swapped\<close>,
  \<open>token1_swapped\<close>, \<open>token0_fee\<close> and \<open>token1_fee\<close>; the two fee variables start as \<open>None\<close> and
  are overwritten, not added to, by each Swap. Adding \<open>None\<close> to an integer is a
  \<open>TypeError\<close>. (The dictionary \<open>topics\<close> copies the fields of the event's ABI out of
  \<open>log.args\<close>; every field read here belongs to that ABI.)
\<close>

fun accumulate_logs ::
  "event_name \<Rightarrow> event_args list \<Rightarrow> nat \<times> nat \<times> nat option \<times> nat option
     \<Rightarrow> py_error + (nat \<times> nat \<times> nat option \<times> nat option)" where
  "accumulate_logs event_name [] acc = Inr acc"
| "accumulate_logs event_name (vals # rest) (token0_swapped, token1_swapped, token0_fee, token1_fee) =
     (if event_name = Swap then
        (if args_get vals ''amount1In'' = Some 0 then
           (case (args_get vals ''amount0In'', args_get vals ''amount1Out'') of
              (Some a0, Some a1) \<Rightarrow>
                accumulate_logs event_name rest
                  (token0_swapped + a0, token1_swapped + a1, Some a0, token1_fee)
            | _ \<Rightarrow> Inl TypeError)
         else if args_get vals ''amount0In'' = Some 0 then
           (case (args_get vals ''amount0Out'', args_get vals ''amount1In'') of
              (Some a0, Some a1) \<Rightarrow>
                accumulate_logs event_name rest
                  (token0_swapped + a0, token1_swapped + a1, token0_fee, Some a1)
            | _ \<Rightarrow> Inl TypeError)
         else accumulate_logs event_name rest
                (token0_swapped, token1_swapped, token0_fee, token1_fee))
      else
        (case (args_get vals ''amount0'', args_get vals ''amount1'') of
           (Some a0, Some a1) \<Rightarrow>
             accumulate_logs event_name rest
               (token0_swapped + a0, token1_swapped + a1, token0_fee, token1_fee)
         | _ \<Rightarrow> Inl TypeError))"

record recent_log =
  rl_sender :: string
  rl_to :: string
  rl_transactionHash :: string
  rl_logIndex :: nat
  rl_blockNumber :: nat
  rl_event :: event_name
  rl_token0_amount :: rat
  rl_token1_amount :: rat
  rl_trade_amount_usd :: rat
  rl_timestamp :: "int option"

text \<open>The amounts of one log in \<open>extract_recent_transaction_logs\<close> (lines 243-255), before
  normalisation; \<open>None\<close> is Python's \<open>None\<close>.\<close>

definition log_amounts :: "event_name \<Rightarrow> event_args \<Rightarrow> nat option \<times> nat option" where
  "log_amounts event_name a =
     (if event_name = Swap then
        (if args_get a ''amount1In'' = Some 0
         then (args_get a ''amount0In'', args_get a ''amount1Out'')
         else if args_get a ''amount0In'' = Some 0
         then (args_get a ''amount0Out'', args_get a ''amount1In'')
         else (Some 0, Some 0))
      else (args_get a ''amount0'', args_get a ''amount1''))"

definition recent_trade_usd ::
  "event_name \<Rightarrow> rat \<Rightarrow> rat \<Rightarrow> rat option \<Rightarrow> rat option \<Rightarrow> rat" where
  "recent_trade_usd event_name token0_amount token1_amount token0Price token1Price =
     (if event_name = Swap then
        (case token0Price of
           Some p0 \<Rightarrow> token0_amount * p0
         | None \<Rightarrow> (case token1Price of Some p1 \<Rightarrow> token1_amount * p1 | None \<Rightarrow> 0))
      else
        (let usd0 = (case token0Price of Some p0 \<Rightarrow> token0_amount * p0 | None \<Rightarrow> 0);
             usd1 = usd0 + (case token1Price of Some p1 \<Rightarrow> token1_amount * p1 | None \<Rightarrow> 0)
         in if token0Price = None \<or> token1Price = None then usd1 * 2 else usd1))"

fun extract_recent_transaction_logs ::
  "(nat \<Rightarrow> int option) \<Rightarrow> event_name \<Rightarrow> event_log list \<Rightarrow> pair_metadata option
     \<Rightarrow> rat option \<Rightarrow> rat option \<Rightarrow> py_error + recent_log list" where
  "extract_recent_transaction_logs get_block_details event_name [] md token0Price token1Price =
     Inr []"
| "extract_recent_transaction_logs get_block_details event_name (lg # rest) md
     token0Price token1Price =
     (case md of
        None \<Rightarrow> Inl KeyError
      | Some m \<Rightarrow>
        (case log_amounts event_name (ev_args lg) of
           (Some a0, Some a1) \<Rightarrow>
             (let token0_amount = of_nat a0 / 10 ^ tok_decimals (token0 m);
                  token1_amount = of_nat a1 / 10 ^ tok_decimals (token1 m);
                  entry = \<lparr> rl_sender = args_sender (ev_args lg),
                            rl_to = args_to (ev_args lg),
                            rl_transactionHash = transactionHash lg,
                            rl_logIndex = logIndex lg,
                            rl_blockNumber = blockNumber lg,
                            rl_event = ev_event lg,
                            rl_token0_amount = token0_amount,
                            rl_token1_amount = token1_amount,
                            rl_trade_amount_usd =
                              recent_trade_usd event_name token0_amount token1_amount
                                token0Price token1Price,
                            rl_timestamp = get_block_details (blockNumber lg) \<rparr>
              in case extract_recent_transaction_logs get_block_details event_name rest md
                        token0Price token1Price of
                   Inl e \<Rightarrow> Inl e
                 | Inr logs \<Rightarrow> Inr (entry # logs))
         | _ \<Rightarrow> Inl TypeError))"

record trade_data =
  totalTradesUSD :: rat
  totalFeeUSD :: "rat option"
  token0TradeVolume :: rat
  token1TradeVolume :: rat
  token0TradeVolumeUSD :: rat
  token1TradeVolumeUSD :: rat
  recent_transaction_logs :: "recent_log list"

text \<open>
  \<open>extract_trade_volume_data\<close> (lines 292-419). The cached prices \<open>token0Price\<close> and
  \<open>token1Price\<close> are the values stored under the \<open>symbol-USDT\<close> keys, \<open>None\<close> when a key is
  absent. The reads and the pruning of the block-height price set (lines 338-351) have no
  effect on the result and are left out. The literal \<open>0.3\<close> of lines 369 and 373 is the
  rational 3/10. In the Mint and Burn branch the prices have been converted to numbers
  before the test of line 409, so a price of zero counts as missing there.
\<close>

definition extract_trade_volume_data ::
  "(nat \<Rightarrow> int option) \<Rightarrow> event_name \<Rightarrow> event_log list \<Rightarrow> pair_metadata option
     \<Rightarrow> rat option \<Rightarrow> rat option \<Rightarrow> py_error + trade_data" where
  "extract_trade_volume_data get_block_details event_name event_logs md token0Price token1Price =
     (case accumulate_logs event_name (map ev_args event_logs) (0, 0, None, None) of
        Inl e \<Rightarrow> Inl e
      | Inr (token0_raw, token1_raw, token0_fee, token1_fee) \<Rightarrow>
     (case md of None \<Rightarrow> Inl KeyError
      | Some m \<Rightarrow>
        (let token0_swapped = of_nat token0_raw / 10 ^ tok_decimals (token0 m);
             token1_swapped = of_nat token1_raw / 10 ^ tok_decimals (token1 m)
         in case extract_recent_transaction_logs get_block_details event_name event_logs md
                   token0Price token1Price of
              Inl e \<Rightarrow> Inl e
            | Inr recent \<Rightarrow>
              if event_name = Swap then
                (let trade_volume_usd =
                       (case token0Price of
                          Some p0 \<Rightarrow> token0_swapped * p0
                        | None \<Rightarrow> (case token1Price of
                                      Some p1 \<Rightarrow> token1_swapped * p1 | None \<Rightarrow> 0));
                     trade_fee_usd =
                       (case (token0_fee, token0Price) of
                          (Some f0, Some p0) \<Rightarrow>
                            if f0 \<noteq> 0
                            then of_nat f0 / 10 ^ tok_decimals (token0 m) * (3 / 10) * p0
                            else (case (token1_fee, token1Price) of
                                    (Some f1, Some p1) \<Rightarrow>
                                      if f1 \<noteq> 0
                                      then of_nat f1 / 10 ^ tok_decimals (token1 m)
                                             * (3 / 10) * p1
                                      else 0
                                  | _ \<Rightarrow> 0)
                        | _ \<Rightarrow>
                            (case (token1_fee, token1Price) of
                               (Some f1, Some p1) \<Rightarrow>
                                 if f1 \<noteq> 0
                                 then of_nat f1 / 10 ^ tok_decimals (token1 m) * (3 / 10) * p1
                                 else 0
                             | _ \<Rightarrow> 0))
                 in Inr \<lparr> totalTradesUSD = trade_volume_usd,
                          totalFeeUSD = Some trade_fee_usd,
                          token0TradeVolume = token0_swapped,
                          token1TradeVolume = token1_swapped,
                          token0TradeVolumeUSD =
                            (case token0Price of Some p0 \<Rightarrow> token0_swapped * p0 | None \<Rightarrow> 0),
                          token1TradeVolumeUSD =
                            (case token1Price of Some p1 \<Rightarrow> token1_swapped * p1 | None \<Rightarrow> 0),
                          recent_transaction_logs = recent \<rparr>)
              else
                (let usd0 = (case token0Price of Some p0 \<Rightarrow> token0_swapped * p0 | None \<Rightarrow> 0);
                     usd1 = (case token1Price of Some p1 \<Rightarrow> token1_swapped * p1 | None \<Rightarrow> 0);
                     missing = (token0Price = None \<or> token0Price = Some 0
                                \<or> token1Price = None \<or> token1Price = Some 0)
                 in Inr \<lparr> totalTradesUSD =
                            (if missing then (usd0 + usd1) * 2 else usd0 + usd1),
                          totalFeeUSD = None,
                          token0TradeVolume = token0_swapped,
                          token1TradeVolume = token1_swapped,
                          token0TradeVolumeUSD = usd0,
                          token1TradeVolumeUSD = usd1,
                          recent_transaction_logs = recent \<rparr>))))"

text \<open>
  What the outside world answers during one call of \<open>get_pair_contract_trades_async\<close>: the
  script load, the limiter, the header of \<open>to_block\<close>, the pair metadata, the three
  \<open>eth_getLogs\<close> queries of \<open>get_events_logs\<close>, the cached prices and the headers that
  \<open>get_block_details\<close> fetches for single logs (\<open>None\<close> when it fails).
\<close>

record trades_env =
  tr_load_rate_limiter_scripts :: "py_error + unit"
  tr_PARSED_LIMITS :: "limit_check list"
  tr_get_block :: "int \<Rightarrow> py_error + int"
  tr_get_pair_per_token_metadata :: "address \<Rightarrow> pair_metadata option"
  get_events_logs :: "address \<Rightarrow> int \<Rightarrow> int \<Rightarrow> event_name \<Rightarrow> py_error + event_log list"
  tr_token0Price :: "rat option"
  tr_token1Price :: "rat option"
  get_block_details :: "nat \<Rightarrow> int option"

text \<open>The dictionary \<open>rets\<close>: its entries for the three event names in insertion order,
  each with its \<open>logs\<close> and its \<open>trades\<close>, and its \<open>timestamp\<close> entry.\<close>

record trades_rets =
  rets_events :: "(event_name \<times> event_log list \<times> trade_data) list"
  rets_timestamp :: "int option"

text \<open>The loop of lines 795-816 over \<open>['Swap', 'Mint', 'Burn']\<close>.\<close>

fun build_rets ::
  "trades_env \<Rightarrow> pair_metadata option \<Rightarrow> (event_name \<times> event_log list) list
     \<Rightarrow> py_error + (event_name \<times> event_log list \<times> trade_data) list" where
  "build_rets env md [] = Inr []"
| "build_rets env md ((trade_event_name, logs) # rest) =
     (case extract_trade_volume_data (get_block_details env) trade_event_name logs md
             (tr_token0Price env) (tr_token1Price env) of
        Inl e \<Rightarrow> Inl e
      | Inr trades \<Rightarrow>
        (case build_rets env md rest of
           Inl e \<Rightarrow> Inl e
         | Inr others \<Rightarrow> Inr ((trade_event_name, logs, trades) # others)))"

definition get_pair_contract_trades_async ::
  "trades_env \<Rightarrow> address \<Rightarrow> int \<Rightarrow> int \<Rightarrow> bool \<Rightarrow> py_error + trades_rets" where
  "get_pair_contract_trades_async env pair_address from_block to_block fetch_timestamp =
     (case tr_load_rate_limiter_scripts env of Inl e \<Rightarrow> Inl e
      | Inr _ \<Rightarrow>
     (case check_limits (tr_PARSED_LIMITS env) False of Inl e \<Rightarrow> Inl e
      | Inr can_request \<Rightarrow>
        if can_request then
          (let block_details =
                 (if fetch_timestamp
                  then (case tr_get_block env to_block of Inl _ \<Rightarrow> None | Inr ts \<Rightarrow> Some ts)
                  else None);
               pair_per_token_metadata = tr_get_pair_per_token_metadata env pair_address
           in case get_events_logs env pair_address from_block to_block Swap of
                Inl e \<Rightarrow> Inl e
              | Inr swap_event_logs \<Rightarrow>
             (case get_events_logs env pair_address from_block to_block Mint of
                Inl e \<Rightarrow> Inl e
              | Inr mint_event_logs \<Rightarrow>
             (case get_events_logs env pair_address from_block to_block Burn of
                Inl e \<Rightarrow> Inl e
              | Inr burn_event_logs \<Rightarrow>
             (case build_rets env pair_per_token_metadata
                     [(Swap, swap_event_logs), (Mint, mint_event_logs),
                      (Burn, burn_event_logs)] of
                Inl e \<Rightarrow> Inl e
              | Inr rets \<Rightarrow>
                  Inr \<lparr> rets_events = rets, rets_timestamp = block_details \<rparr>))))
        else Inl ExhaustedApiKeyRateLimit))"

section \<open>Messages, snapshots and effects (\<open>pair_total_reserves.py\<close>)\<close>

record process_message =
  msg_begin :: int
  msg_end :: int
  msg_contract :: address
  msg_broadcast_id :: string

record reserves_snapshot =
  token0Reserves :: "(string \<times> rat) list"
  token1Reserves :: "(string \<times> rat) list"
  rs_chainHeightRange :: "int \<times> int"
  rs_timestamp :: int
  rs_contract :: address
  rs_broadcast_id :: string

record trades_snapshot =
  ts_contract :: address
  ts_broadcast_id :: string
  ts_chainHeightRange :: "int \<times> int"
  ts_timestamp :: int
  totalTrade :: rat
  totalFee :: rat
  ts_token0TradeVolume :: rat
  ts_token1TradeVolume :: rat
  events :: "event_log list"

text \<open>\<open>float(f'{x: .6f}')\<close>: the nearest multiple of one millionth (ties are resolved
  upwards here; Python resolves them on the binary value).\<close>

definition round6 :: "rat \<Rightarrow> rat" where
  "round6 x = of_int (round (x * 1000000)) / 1000000"

text \<open>\<open>str(n)\<close> for an integer, as the f-string \<open>f'block{block_num}'\<close> prints it.\<close>

definition digit_char :: "nat \<Rightarrow> char" where
  "digit_char d = char_of (48 + d)"

function str_nat :: "nat \<Rightarrow> string" where
  "str_nat n = (if n < 10 then [digit_char n] else str_nat (n div 10) @ [digit_char (n mod 10)])"
  by pat_completeness auto
termination
  by (relation "measure id") auto

declare str_nat.simps [simp del]

definition str_int :: "int \<Rightarrow> string" where
  "str_int i = (if i < 0 then CHR ''-'' # str_nat (nat (- i)) else str_nat (nat i))"

definition block_key :: "int \<Rightarrow> string" where
  "block_key block_num = ''block'' @ str_int block_num"

datatype payload = ReservesPayload reserves_snapshot | TradesPayload trades_snapshot

text \<open>The answer of the audit service as \<open>commit_payload\<close> returns it: a dictionary (a JSON
  object, by its keys and values) or something that is not a dictionary.\<close>

datatype audit_response = ResponseDict "(string \<times> string) list" | ResponseOther

datatype log_msg = MsgDict process_message | MsgPayload payload

text \<open>What an \<open>update_log\<close> dictionary holds in \<open>info\<close> besides \<open>msg\<close> and \<open>status\<close>: nothing,
  \<open>snapshot\<close>, \<open>exception\<close> (the exception object itself), \<open>error\<close> or \<open>response\<close>.\<close>

datatype info_extra =
    NoExtra
  | InfoSnapshot payload
  | InfoException py_error
  | InfoError audit_response
  | InfoResponse audit_response

record update_log =
  ul_worker :: string
  ul_action :: string
  ul_msg :: log_msg
  ul_status :: string
  ul_extra :: info_extra

text \<open>\<open>json.dumps(update_log)\<close>: an exception object is not JSON serialisable, and the
  encoder raises \<open>TypeError\<close> on it. The serialised text is represented by the dictionary
  itself.\<close>

definition json_dumps :: "update_log \<Rightarrow> py_error + update_log" where
  "json_dumps ul = (case ul_extra ul of InfoException _ \<Rightarrow> Inl TypeError | _ \<Rightarrow> Inr ul)"

text \<open>
  The calls the worker makes to the outside, in order: a push on the failed-epochs list of a
  pair, a line of the logger, an entry added to the processing log of a broadcast, and the
  two calls of the audit-protocol helper with their pair address and stream.
\<close>

datatype effect =
    Ack
  | RPush address process_message
  | LoggerError string
  | LoggerDebug string
  | ZAdd string update_log
  | SetDiffRule address string
  | CommitPayload address string payload

text \<open>A run of effectful code: the effects so far and the exception that ended it, if
  any. \<open>then_run\<close> continues a run that has not raised.\<close>

type_synonym run = "effect list \<times> py_error option"

definition then_run :: "run \<Rightarrow> run \<Rightarrow> run" where
  "then_run a b = (case snd a of Some e \<Rightarrow> a | None \<Rightarrow> (fst a @ fst b, snd b))"

definition zadd_log :: "string \<Rightarrow> update_log \<Rightarrow> run" where
  "zadd_log broadcast_id ul =
     (case json_dumps ul of Inl e \<Rightarrow> ([], Some e) | Inr member \<Rightarrow> ([ZAdd broadcast_id member], None))"

subsection \<open>The reserves snapshot builder\<close>

text \<open>A timestamp that Python's \<open>not\<close> holds to be false: \<open>None\<close> or zero.\<close>

definition falsy_timestamp :: "int option \<Rightarrow> bool" where
  "falsy_timestamp t = (t = None \<or> t = Some 0)"

text \<open>
  The loop of lines 46-68 over \<open>range(min_chain_height, max_chain_height + 1)\<close>. The awaited
  call of line 49 is the parameter \<open>fetch\<close>: what the call returns, or that it raises, for
  the pair address, the block and the \<open>fetch_timestamp\<close> flag it is given. The state is the
  two maps, \<open>max_block_timestamp\<close> and the lines logged; the Boolean returned is
  \<open>enqueue_epoch\<close>. A Python dictionary is an association list in insertion order.
\<close>

fun reserves_loop ::
  "(address \<Rightarrow> int \<Rightarrow> bool \<Rightarrow> py_error + reserve_total) \<Rightarrow> process_message \<Rightarrow> int list
     \<Rightarrow> (string \<times> rat) list \<times> (string \<times> rat) list \<times> int \<times> effect list
     \<Rightarrow> bool \<times> (string \<times> rat) list \<times> (string \<times> rat) list \<times> int \<times> effect list" where
  "reserves_loop fetch msg_obj [] st = (False, st)"
| "reserves_loop fetch msg_obj (block_num # rest) (map0, map1, max_block_timestamp, logged) =
     (let fetch_ts = (block_num = msg_end msg_obj) in
      case fetch (msg_contract msg_obj) block_num fetch_ts of
        Inl _ \<Rightarrow> (True, map0, map1, max_block_timestamp, logged)
      | Inr pair_reserve_total \<Rightarrow>
          (let map0' = AList.update (block_key block_num) (rt_token0 pair_reserve_total) map0;
               map1' = AList.update (block_key block_num) (rt_token1 pair_reserve_total) map1
           in if fetch_ts then
                (if falsy_timestamp (rt_timestamp pair_reserve_total)
                 then reserves_loop fetch msg_obj rest
                        (map0', map1', max_block_timestamp,
                         logged @ [LoggerError ''Could not fetch timestamp for max block height'']) 
                 else reserves_loop fetch msg_obj rest
                        (map0', map1',
                         (case rt_timestamp pair_reserve_total of
                            Some t \<Rightarrow> t | None \<Rightarrow> max_block_timestamp),
                         logged))
              else reserves_loop fetch msg_obj rest (map0', map1', max_block_timestamp, logged)))"

text \<open>\<open>_construct_pair_reserves_epoch_snapshot_data\<close> (lines 39-86); \<open>now\<close> is
  \<open>int(time.time())\<close> at line 45.\<close>

definition construct_pair_reserves_epoch_snapshot_data ::
  "(address \<Rightarrow> int \<Rightarrow> bool \<Rightarrow> py_error + reserve_total) \<Rightarrow> int \<Rightarrow> process_message \<Rightarrow> bool
     \<Rightarrow> effect list \<times> reserves_snapshot option" where
  "construct_pair_reserves_epoch_snapshot_data fetch now msg_obj enqueue_on_failure =
     (case reserves_loop fetch msg_obj [msg_begin msg_obj .. msg_end msg_obj] ([], [], now, []) of
        (enqueue_epoch, map0, map1, max_block_timestamp, logged) \<Rightarrow>
          if enqueue_epoch then
            (if enqueue_on_failure
             then (logged @ [RPush (msg_contract msg_obj) msg_obj,
                             LoggerDebug ''Enqueued epoch because reserve query failed''], None)
             else (logged, None))
          else
            (logged,
             Some \<lparr> token0Reserves = map0,
                    token1Reserves = map1,
                    rs_chainHeightRange = (msg_begin msg_obj, msg_end msg_obj),
                    rs_timestamp = max_block_timestamp,
                    rs_contract = msg_contract msg_obj,
                    rs_broadcast_id = msg_broadcast_id msg_obj \<rparr>))"

subsection \<open>The trade-volume snapshot builder\<close>

text \<open>The loop of lines 114-123 over the keys of \<open>rets\<close>: the four totals and
  \<open>final_events_list\<close>.\<close>

fun sum_events ::
  "(event_name \<times> event_log list \<times> trade_data) list
     \<Rightarrow> rat \<times> rat \<times> rat \<times> rat \<times> event_log list
     \<Rightarrow> rat \<times> rat \<times> rat \<times> rat \<times> event_log list" where
  "sum_events [] acc = acc"
| "sum_events ((each_event, logs, trades) # rest)
     (total_trades_in_usd, total_fee_in_usd, total_token0_vol, total_token1_vol,
      final_events_list) =
     sum_events rest
       (total_trades_in_usd + totalTradesUSD trades,
        total_fee_in_usd + (case totalFeeUSD trades of Some f \<Rightarrow> f | None \<Rightarrow> 0),
        total_token0_vol + token0TradeVolume trades,
        total_token1_vol + token1TradeVolume trades,
        final_events_list @ logs)"

text \<open>\<open>_construct_trade_volume_epoch_snapshot_data\<close> (lines 88-141); \<open>fetched\<close> is the outcome
  of the awaited \<open>get_pair_contract_trades_async\<close>.\<close>

definition construct_trade_volume_epoch_snapshot_data ::
  "(address \<Rightarrow> int \<Rightarrow> int \<Rightarrow> py_error + trades_rets) \<Rightarrow> int \<Rightarrow> process_message \<Rightarrow> bool
     \<Rightarrow> effect list \<times> trades_snapshot option" where
  "construct_trade_volume_epoch_snapshot_data fetch_trades now msg_obj enqueue_on_failure =
     (case fetch_trades (msg_contract msg_obj) (msg_begin msg_obj) (msg_end msg_obj) of
        Inl _ \<Rightarrow>
          (if enqueue_on_failure
           then ([RPush (msg_contract msg_obj) msg_obj,
                  LoggerDebug ''Enqueued epoch because trade volume query failed''], None)
           else ([], None))
      | Inr trade_vol_processed_snapshot \<Rightarrow>
          (case sum_events (rets_events trade_vol_processed_snapshot) (0, 0, 0, 0, []) of
             (total_trades_in_usd, total_fee_in_usd, total_token0_vol, total_token1_vol,
              final_events_list) \<Rightarrow>
               ([LoggerDebug ''Trade volume processed snapshot'']
                @ (if falsy_timestamp (rets_timestamp trade_vol_processed_snapshot)
                   then [LoggerError ''Could not fetch timestamp for max block height'']
                   else []),
                Some \<lparr> ts_contract = msg_contract msg_obj,
                       ts_broadcast_id = msg_broadcast_id msg_obj,
                       ts_chainHeightRange = (msg_begin msg_obj, msg_end msg_obj),
                       ts_timestamp =
                         (case rets_timestamp trade_vol_processed_snapshot of
                            Some t \<Rightarrow> if t = 0 then now else t
                          | None \<Rightarrow> now),
                       totalTrade = round6 total_trades_in_usd,
                       totalFee = round6 total_fee_in_usd,
                       ts_token0TradeVolume = round6 total_token0_vol,
                       ts_token1TradeVolume = round6 total_token1_vol,
                       events = final_events_list \<rparr>)))"

subsection \<open>The snapshot worker\<close>

text \<open>
  The worker object \<open>self\<close>: its identifier, its two builder methods, and the two calls of
  \<open>AuditProtocolCommandsHelper\<close> (\<open>set_diff_rule\<close> answers with the exception it raises, if
  any; \<open>commit_payload\<close> with its response or its exception).
\<close>

record processor =
  unique_id :: string
  self_construct_pair_reserves_epoch_snapshot_data ::
    "process_message \<Rightarrow> bool \<Rightarrow> effect list \<times> reserves_snapshot option"
  self_construct_trade_volume_epoch_snapshot_data ::
    "process_message \<Rightarrow> bool \<Rightarrow> effect list \<times> trades_snapshot option"
  set_diff_rule :: "address \<Rightarrow> string \<Rightarrow> py_error option"
  commit_payload :: "address \<Rightarrow> string \<Rightarrow> payload \<Rightarrow> py_error + audit_response"

text \<open>\<open>type(r) is dict and 'message' in r.keys()\<close>\<close>

definition has_message :: "audit_response \<Rightarrow> bool" where
  "has_message r =
     (case r of ResponseDict d \<Rightarrow> (case map_of d ''message'' of Some _ \<Rightarrow> True | None \<Rightarrow> False)
      | ResponseOther \<Rightarrow> False)"

definition make_update_log ::
  "processor \<Rightarrow> string \<Rightarrow> log_msg \<Rightarrow> string \<Rightarrow> info_extra \<Rightarrow> update_log" where
  "make_update_log self action m status extra =
     \<lparr> ul_worker = unique_id self, ul_action = action, ul_msg = m, ul_status = status,
       ul_extra = extra \<rparr>"

text \<open>Lines 192-282: the reserves snapshot was built; log, set the diff rule, commit.\<close>

definition commit_pair_reserves ::
  "processor \<Rightarrow> process_message \<Rightarrow> reserves_snapshot \<Rightarrow> run" where
  "commit_pair_reserves self msg_obj snapshot =
     (let bid = msg_broadcast_id msg_obj;
          payload = ReservesPayload snapshot
      in then_run
           (zadd_log bid (make_update_log self ''PairReserves.SnapshotBuild'' (MsgDict msg_obj)
                            ''Success'' (InfoSnapshot payload)))
        (then_run
           ([SetDiffRule (rs_contract snapshot) ''pair_total_reserves''],
            set_diff_rule self (rs_contract snapshot) ''pair_total_reserves'')
        (then_run
           ([CommitPayload (rs_contract snapshot) ''pair_total_reserves'' payload], None)
           (case commit_payload self (rs_contract snapshot) ''pair_total_reserves'' payload of
              Inl e \<Rightarrow>
                then_run ([LoggerError ''Exception committing snapshot to audit protocol''], None)
                  (zadd_log bid (make_update_log self ''PairReserves.SnapshotCommit''
                                   (MsgPayload payload) ''Failed'' (InfoException e)))
            | Inr r \<Rightarrow>
                if has_message r then
                  then_run
                    ([LoggerError ''Error committing pair token reserves snapshot''], None)
                    (zadd_log bid (make_update_log self ''PairReserves.SnapshotCommit''
                                     (MsgPayload payload) ''Failed'' (InfoError r)))
                else
                  then_run ([LoggerDebug ''Sent snapshot to audit protocol''], None)
                    (zadd_log bid (make_update_log self ''PairReserves.SnapshotCommit''
                                     (MsgPayload payload) ''Success'' (InfoResponse r)))))))"

text \<open>
  Lines 306-397: the trade-volume snapshot was built. The diff rule is set for the contract
  of the message; the argument \<open>pair_contract_address\<close> of \<open>commit_payload\<close> (line 333) is
  the attribute \<open>contract\<close> of the reserves snapshot, read inside the \<open>try\<close>: on \<open>None\<close> the
  read raises \<open>AttributeError\<close> and the call is not made.
\<close>

definition commit_trade_volume ::
  "processor \<Rightarrow> process_message \<Rightarrow> reserves_snapshot option \<Rightarrow> trades_snapshot \<Rightarrow> run" where
  "commit_trade_volume self msg_obj pair_total_reserves_epoch_snapshot snapshot =
     (let bid = msg_broadcast_id msg_obj;
          payload = TradesPayload snapshot;
          attempt =
            (case pair_total_reserves_epoch_snapshot of
               None \<Rightarrow> ([], Inl AttributeError)
             | Some reserves \<Rightarrow>
                 ([CommitPayload (rs_contract reserves) ''trade_volume'' payload],
                  commit_payload self (rs_contract reserves) ''trade_volume'' payload))
      in then_run
           (zadd_log bid (make_update_log self ''TradeVolume.SnapshotBuild'' (MsgDict msg_obj)
                            ''Success'' (InfoSnapshot payload)))
        (then_run
           ([SetDiffRule (msg_contract msg_obj) ''trade_volume''],
            set_diff_rule self (msg_contract msg_obj) ''trade_volume'')
        (then_run (fst attempt, None)
           (case snd attempt of
              Inl e \<Rightarrow>
                then_run ([LoggerError ''Exception committing snapshot to audit protocol''], None)
                  (zadd_log bid (make_update_log self ''TradeVolume.SnapshotCommit''
                                   (MsgPayload payload) ''Failed'' (InfoException e)))
            | Inr r \<Rightarrow>
                if has_message r then
                  then_run
                    ([LoggerError ''Error committing trade volume snapshot''], None)
                    (zadd_log bid (make_update_log self ''TradeVolume.SnapshotCommit''
                                     (MsgPayload payload) ''Failed'' (InfoError r)))
                else
                  then_run ([LoggerDebug ''Sent snapshot to audit protocol''], None)
                    (zadd_log bid (make_update_log self ''TradeVolume.SnapshotCommit''
                                     (MsgPayload payload) ''Success'' (InfoResponse r)))))))"

text \<open>
  \<open>_on_rabbitmq_message\<close> (lines 150-397); \<open>parsed\<close> is the outcome of
  \<open>PowerloomCallbackProcessMessage.parse_raw(message.body)\<close>. The Redis pool and the HTTP
  session are taken to be available.
\<close>

definition on_rabbitmq_message :: "processor \<Rightarrow> py_error + process_message \<Rightarrow> run" where
  "on_rabbitmq_message self parsed =
     then_run ([Ack], None)
       (case parsed of
          Inl _ \<Rightarrow> ([LoggerError ''Bad message structure of callback''], None)
        | Inr msg_obj \<Rightarrow>
          (case self_construct_pair_reserves_epoch_snapshot_data self msg_obj True of
             (built_effects, pair_total_reserves_epoch_snapshot) \<Rightarrow>
               then_run (built_effects, None)
              (then_run
                 (case pair_total_reserves_epoch_snapshot of
                    None \<Rightarrow>
                      then_run ([LoggerError ''No epoch snapshot to commit''], None)
                        (zadd_log (msg_broadcast_id msg_obj)
                           (make_update_log self ''PairReserves.SnapshotBuild''
                              (MsgDict msg_obj) ''Failed'' NoExtra))
                  | Some snapshot \<Rightarrow> commit_pair_reserves self msg_obj snapshot)
                 (case self_construct_trade_volume_epoch_snapshot_data self msg_obj True of
                    (trade_effects, trade_vol_epoch_snapshot) \<Rightarrow>
                      then_run (trade_effects, None)
                        (case trade_vol_epoch_snapshot of
                           None \<Rightarrow>
                             then_run
                               ([LoggerError ''No epoch snapshot to commit for trade volume''],
                                None)
                               (zadd_log (msg_broadcast_id msg_obj)
                                  (make_update_log self ''TradeVolume.SnapshotBuild''
                                     (MsgDict msg_obj) ''Failed'' NoExtra))
                         | Some snapshot \<Rightarrow>
                             commit_trade_volume self msg_obj
                               pair_total_reserves_epoch_snapshot snapshot)))))"

text \<open>The worker of the source: its builder methods are the two builders above, over what
  the chain answers (\<open>fetch\<close>, \<open>fetch_trades\<close>) and the clock reads (\<open>now\<close>).\<close>

definition PairTotalReservesProcessor ::
  "string \<Rightarrow> (address \<Rightarrow> int \<Rightarrow> bool \<Rightarrow> py_error + reserve_total)
     \<Rightarrow> (address \<Rightarrow> int \<Rightarrow> int \<Rightarrow> py_error + trades_rets) \<Rightarrow> int
     \<Rightarrow> (address \<Rightarrow> string \<Rightarrow> py_error option)
     \<Rightarrow> (address \<Rightarrow> string \<Rightarrow> payload \<Rightarrow> py_error + audit_response) \<Rightarrow> processor" where
  "PairTotalReservesProcessor uid fetch fetch_trades now sdr cp =
     \<lparr> unique_id = uid,
       self_construct_pair_reserves_epoch_snapshot_data =
         construct_pair_reserves_epoch_snapshot_data fetch now,
       self_construct_trade_volume_epoch_snapshot_data =
         construct_trade_volume_epoch_snapshot_data fetch_trades now,
       set_diff_rule = sdr,
       commit_payload = cp \<rparr>"

section \<open>Scenarios\<close>

text \<open>The pair of the end-to-end scenarios: token0 with 18 decimals, token1 with 6.\<close>

definition example_metadata :: pair_metadata where
  "example_metadata =
     \<lparr> token0 = \<lparr> tok_address = ''0xA'', tok_symbol = ''AAA'', tok_decimals = 18 \<rparr>,
       token1 = \<lparr> tok_address = ''0xB'', tok_symbol = ''BBB'', tok_decimals = 6 \<rparr> \<rparr>"

text \<open>One Swap at block 105, log index 3: \<open>amount0In\<close> is \<open>10^18\<close>, \<open>amount1Out\<close> is
  \<open>2000 * 10^6\<close>. One Mint at block 100, log index 0.\<close>

definition swap_at_105 :: event_log where
  "swap_at_105 =
     \<lparr> ev_event = Swap,
       ev_args = SwapArgs ''0xS'' (10 ^ 18) 0 0 (2000 * 10 ^ 6) ''0xT'',
       transactionHash = ''0x01'', logIndex = 3, blockNumber = 105 \<rparr>"

definition mint_at_100 :: event_log where
  "mint_at_100 =
     \<lparr> ev_event = Mint,
       ev_args = MintArgs ''0xS'' 5 7,
       transactionHash = ''0x02'', logIndex = 0, blockNumber = 100 \<rparr>"

text \<open>A chain and a store that answer every call: the limiter admits, the Swap query
  returns the Swap above, the Mint query returns \<open>mints\<close>, the Burn query nothing; token0 is
  priced at 2 USD and token1 at 1 USD.\<close>

definition swap_scenario_env :: "event_log list \<Rightarrow> trades_env" where
  "swap_scenario_env mints =
     \<lparr> tr_load_rate_limiter_scripts = Inr (),
       tr_PARSED_LIMITS = [\<lparr> hit = Returned True, get_window_stats = Returned () \<rparr>],
       tr_get_block = (\<lambda>b. Inr 1700000000),
       tr_get_pair_per_token_metadata = (\<lambda>a. Some example_metadata),
       get_events_logs =
         (\<lambda>a f t n. Inr (if n = Swap then [swap_at_105] else if n = Mint then mints else [])),
       tr_token0Price = Some 2,
       tr_token1Price = Some 1,
       get_block_details = (\<lambda>b. Some 1700000000) \<rparr>"

definition example_msg :: process_message where
  "example_msg =
     \<lparr> msg_begin = 100, msg_end = 109, msg_contract = ''0xP'', msg_broadcast_id = ''B1'' \<rparr>"

text \<open>The order of the claim on the events of a snapshot: by block number, then by log
  index.\<close>

definition event_order_le :: "event_log \<Rightarrow> event_log \<Rightarrow> bool" where
  "event_order_le a b =
     (blockNumber a < blockNumber b
      \<or> (blockNumber a = blockNumber b \<and> logIndex a \<le> logIndex b))"

definition events_in_order :: "event_log list \<Rightarrow> bool" where
  "events_in_order evs = sorted_wrt event_order_le evs"

section \<open>Scenarios of the worker\<close>

text \<open>The traces of a trade-volume commit in a run: the call itself, and an entry of the
  processing log with the action \<open>TradeVolume.SnapshotCommit\<close>.\<close>

definition is_trade_commit_record :: "effect \<Rightarrow> bool" where
  "is_trade_commit_record e =
     (case e of
        ZAdd bid ul \<Rightarrow> ul_action ul = ''TradeVolume.SnapshotCommit''
      | CommitPayload c stream p \<Rightarrow> stream = ''trade_volume''
      | _ \<Rightarrow> False)"

text \<open>A call of \<open>commit_payload\<close>, on any stream.\<close>

definition is_commit_call :: "effect \<Rightarrow> bool" where
  "is_commit_call e = (case e of CommitPayload c stream p \<Rightarrow> True | _ \<Rightarrow> False)"

text \<open>A worker for which every reserves query fails, while the trade-volume queries are
  answered as in the Swap scenario and the audit service accepts everything.\<close>

definition failing_reserves_processor :: processor where
  "failing_reserves_processor =
     PairTotalReservesProcessor ''worker-1''
       (\<lambda>a b ts. Inl RPCFailure)
       (\<lambda>a f t. get_pair_contract_trades_async (swap_scenario_env []) a f t True)
       1700000000
       (\<lambda>a s. None)
       (\<lambda>a s p. Inr (ResponseDict []))"

text \<open>A worker whose reserves builder is overridden to return a snapshot under the
  contract \<open>0xR\<close>, whatever the contract of the message.\<close>

definition relabelling_processor :: processor where
  "relabelling_processor =
     \<lparr> unique_id = ''worker-1'',
       self_construct_pair_reserves_epoch_snapshot_data =
         (\<lambda>m b. ([], Some \<lparr> token0Reserves = [], token1Reserves = [],
                            rs_chainHeightRange = (msg_begin m, msg_end m),
                            rs_timestamp = 1700000000, rs_contract = ''0xR'',
                            rs_broadcast_id = msg_broadcast_id m \<rparr>)),
       self_construct_trade_volume_epoch_snapshot_data =
         construct_trade_volume_epoch_snapshot_data
           (\<lambda>a f t. get_pair_contract_trades_async (swap_scenario_env []) a f t True) 1700000000,
       set_diff_rule = (\<lambda>a s. None),
       commit_payload = (\<lambda>a s p. Inr (ResponseDict [])) \<rparr>"

text \<open>Reading a decimal numeral back, to show that \<open>str_nat\<close> is injective.\<close>

definition digit_val :: "char \<Rightarrow> nat" where
  "digit_val c = of_char c - 48"

definition decode_nat :: "string \<Rightarrow> nat" where
  "decode_nat s = foldl (\<lambda>acc c. acc * 10 + digit_val c) 0 s"

text \<open>The chain of the first scenario: reserves of \<open>1000 * 10^18\<close> and \<open>2000 * 10^6\<close> at
  every block; \<open>header\<close> is what the block-header query does.\<close>

definition happy_path_env :: "(int \<Rightarrow> py_error + int) \<Rightarrow> liquidity_env" where
  "happy_path_env header =
     \<lparr> load_rate_limiter_scripts = Inr (),
       PARSED_LIMITS = [\<lparr> hit = Returned True, get_window_stats = Returned () \<rparr>],
       get_block = header,
       get_pair_per_token_metadata = (\<lambda>a. Some example_metadata),
       getReserves = (\<lambda>a b n. Inr (1000 * 10 ^ 18, 2000 * 10 ^ 6)),
       cached_token0Price = None,
       cached_token1Price = None \<rparr>"

section \<open>Pricing engine (\<open>pooler/callback_modules/uniswap/pricing.py\<close>)\<close>

text \<open>
  What the chain and the helper modules answer to the pricing engine: the WETH address and
  the whitelist of the settings, \<open>get_pair\<close> on the factory, \<open>get_pair_metadata\<close>, the batched
  \<open>getReserves\<close> and \<open>getAmountsOut\<close> calls of \<open>rpc_helper.batch_eth_call_on_block_range\<close> (one
  decoded result per block; for \<open>getAmountsOut\<close> the tuple of outputs, whose first component
  is the list of amounts) and \<open>get_eth_price_usd\<close>. A dictionary keyed by block number is an
  association list in insertion order.
\<close>

record pricing_env =
  WETH :: address
  uniswap_v2_whitelist :: "address list"
  get_pair :: "address \<Rightarrow> address \<Rightarrow> py_error + address"
  get_pair_metadata :: "address \<Rightarrow> py_error + pair_metadata"
  batch_getReserves :: "address \<Rightarrow> int \<Rightarrow> int \<Rightarrow> py_error + (nat \<times> nat) list"
  batch_getAmountsOut :: "nat \<Rightarrow> address \<Rightarrow> int \<Rightarrow> int \<Rightarrow> py_error + nat list list list"
  get_eth_price_usd :: "int \<Rightarrow> int \<Rightarrow> py_error + (int \<times> rat) list"

definition zero_address :: address where
  "zero_address = ''0x0000000000000000000000000000000000000000''"

text \<open>\<open>tokens_decimals['WETH']\<close> of the constants module.\<close>

definition tokens_decimals_WETH :: nat where
  "tokens_decimals_WETH = 18"

text \<open>
  The arithmetic of the pricing engine is on doubles, and a comparison of a product with
  the minimum liquidity decides which whitelist token prices the token. A double is taken
  as the rational it denotes, and every function below has a first parameter \<open>fl\<close>, the
  rounding of the exact result of one operation to a double: Python's quotient of two
  integers or of two floats is \<open>fl (a / b)\<close>, its product of two floats is \<open>fl (a * b)\<close>.
  Nothing is assumed of \<open>fl\<close> in the properties proved for every rounding; the code is the
  instance where \<open>fl\<close> rounds to the nearest double.
\<close>

text \<open>Python's \<open>/\<close> on numbers: a zero divisor raises.\<close>

definition py_truediv :: "(rat \<Rightarrow> rat) \<Rightarrow> rat \<Rightarrow> rat \<Rightarrow> py_error + rat" where
  "py_truediv fl a b = (if b = 0 then Inl ZeroDivisionError else Inr (fl (a / b)))"

text \<open>The rounding on results that are doubles already, as all of them are in the
  scenarios below (halves, small integers and their products): nothing is rounded.\<close>

definition no_rounding :: "rat \<Rightarrow> rat" where
  "no_rounding x = x"

text \<open>
  The body of the loop of lines 69-99 for one block and its entry of \<open>pair_reserves_list\<close>.
  The reserves are scaled by the powers of ten of the decimals, which are not zero, each
  quotient rounded to a double. Besides
  the two dictionaries the state keeps, as a ghost, the list of the price quotients
  evaluated: the block, the dividend and the divisor.
\<close>

definition price_step ::
  "(rat \<Rightarrow> rat) \<Rightarrow> pair_metadata \<Rightarrow> address \<Rightarrow> nat \<times> nat \<Rightarrow> int
     \<Rightarrow> (int \<times> rat) list \<times> (int \<times> rat) list \<times> (int \<times> rat \<times> rat) list
     \<Rightarrow> py_error + ((int \<times> rat) list \<times> (int \<times> rat) list \<times> (int \<times> rat \<times> rat) list)" where
  "price_step fl pair_metadata white_token reserves block_num acc =
     (case acc of (token_price_dict, white_token_reserves_dict, quotients) \<Rightarrow>
        (let pair_reserve_token0 =
               fl (of_nat (fst reserves) / 10 ^ tok_decimals (token0 pair_metadata));
             pair_reserve_token1 =
               fl (of_nat (snd reserves) / 10 ^ tok_decimals (token1 pair_metadata))
         in if pair_reserve_token0 = 0 \<or> pair_reserve_token1 = 0 then
              Inr (AList.update block_num 0 token_price_dict,
                   AList.update block_num 0 white_token_reserves_dict,
                   quotients)
            else if tok_address (token0 pair_metadata) = white_token then
              (case py_truediv fl pair_reserve_token0 pair_reserve_token1 of
                 Inl e \<Rightarrow> Inl e
               | Inr q \<Rightarrow>
                   Inr (AList.update block_num q token_price_dict,
                        AList.update block_num pair_reserve_token0 white_token_reserves_dict,
                        quotients @ [(block_num, pair_reserve_token0, pair_reserve_token1)]))
            else
              (case py_truediv fl pair_reserve_token1 pair_reserve_token0 of
                 Inl e \<Rightarrow> Inl e
               | Inr q \<Rightarrow>
                   Inr (AList.update block_num q token_price_dict,
                        AList.update block_num pair_reserve_token1 white_token_reserves_dict,
                        quotients @ [(block_num, pair_reserve_token1, pair_reserve_token0)]))))"

text \<open>The loop itself, with \<open>index\<close> counted beside the block number.\<close>

fun price_loop ::
  "(rat \<Rightarrow> rat) \<Rightarrow> pair_metadata \<Rightarrow> address \<Rightarrow> (nat \<times> nat) list \<Rightarrow> int list \<Rightarrow> nat
     \<Rightarrow> (int \<times> rat) list \<times> (int \<times> rat) list \<times> (int \<times> rat \<times> rat) list
     \<Rightarrow> py_error + ((int \<times> rat) list \<times> (int \<times> rat) list \<times> (int \<times> rat \<times> rat) list)" where
  "price_loop fl pair_metadata white_token pair_reserves_list [] index acc = Inr acc"
| "price_loop fl pair_metadata white_token pair_reserves_list (block_num # rest) index acc =
     (if index < length pair_reserves_list then
        (case price_step fl pair_metadata white_token (pair_reserves_list ! index) block_num acc of
           Inl e \<Rightarrow> Inl e
         | Inr acc' \<Rightarrow>
             price_loop fl pair_metadata white_token pair_reserves_list rest (index + 1) acc')
      else Inl IndexError)"

definition get_token_pair_price_and_white_token_reserves ::
  "(rat \<Rightarrow> rat) \<Rightarrow> pricing_env \<Rightarrow> address \<Rightarrow> int \<Rightarrow> int \<Rightarrow> pair_metadata \<Rightarrow> address
     \<Rightarrow> py_error + ((int \<times> rat) list \<times> (int \<times> rat) list)" where
  "get_token_pair_price_and_white_token_reserves fl env pair_address from_block to_block
     pair_metadata white_token =
     (case batch_getReserves env pair_address from_block to_block of
        Inl e \<Rightarrow> Inl e
      | Inr pair_reserves_list \<Rightarrow>
          if int (length pair_reserves_list) < to_block - (from_block - 1)
          then Inl UnableToGetReserves
          else (case price_loop fl pair_metadata white_token pair_reserves_list
                       [from_block .. to_block] 0 ([], [], []) of
                  Inl e \<Rightarrow> Inl e
                | Inr (token_price_dict, white_token_reserves_dict, quotients) \<Rightarrow>
                    Inr (token_price_dict, white_token_reserves_dict)))"

text \<open>The loop of lines 155-164. An empty result is stored as 0 and then indexed all the
  same, which raises; a list of amounts that is not a pair cannot be unpacked.\<close>

fun derived_eth_loop ::
  "(rat \<Rightarrow> rat) \<Rightarrow> nat list list list \<Rightarrow> int list \<Rightarrow> nat \<Rightarrow> (int \<times> rat) list \<Rightarrow> py_error + (int \<times> rat) list" where
  "derived_eth_loop fl token_derived_eth_list [] index token_derived_eth_dict =
     Inr token_derived_eth_dict"
| "derived_eth_loop fl token_derived_eth_list (block_num # rest) index token_derived_eth_dict =
     (if index < length token_derived_eth_list then
        (case token_derived_eth_list ! index of
           [] \<Rightarrow> Inl IndexError
         | amounts # _ \<Rightarrow>
             (case amounts of
                [_, derivedEth] \<Rightarrow>
                  derived_eth_loop fl token_derived_eth_list rest (index + 1)
                    (AList.update block_num
                       (if derivedEth \<noteq> 0
                        then fl (of_nat derivedEth / 10 ^ tokens_decimals_WETH)
                        else 0)
                       token_derived_eth_dict)
              | _ \<Rightarrow> Inl ValueError))
      else Inl IndexError)"

definition get_token_derived_eth ::
  "(rat \<Rightarrow> rat) \<Rightarrow> pricing_env \<Rightarrow> int \<Rightarrow> int \<Rightarrow> token_metadata \<Rightarrow> py_error + (int \<times> rat) list" where
  "get_token_derived_eth fl env from_block to_block white_token_metadata =
     (if tok_address white_token_metadata = WETH env then
        Inr (fold (\<lambda>block_num d. AList.update block_num 1 d) [from_block .. to_block] [])
      else
        (case batch_getAmountsOut env (10 ^ tok_decimals white_token_metadata)
                (tok_address white_token_metadata) from_block to_block of
           Inl e \<Rightarrow> Inl e
         | Inr token_derived_eth_list \<Rightarrow>
             if int (length token_derived_eth_list) < to_block - (from_block - 1)
             then Inl UnableToGetDerivedEth
             else derived_eth_loop fl token_derived_eth_list [from_block .. to_block] 0 []))"

text \<open>
  The loop of lines 255-272 for one whitelist token: \<open>.get\<close> on the three dictionaries
  (\<open>None\<close> in a product is a \<open>TypeError\<close>), the test against the minimum liquidity of 1, and
  the entry stored into \<open>token_eth_price_dict\<close>. The Boolean is
  \<open>less_than_minimum_liquidity\<close>.
\<close>

fun liquidity_loop ::
  "(rat \<Rightarrow> rat) \<Rightarrow> (int \<times> rat) list \<Rightarrow> (int \<times> rat) list \<Rightarrow> (int \<times> rat) list \<Rightarrow> int list \<Rightarrow> (int \<times> rat) list
     \<Rightarrow> py_error + (bool \<times> (int \<times> rat) list)" where
  "liquidity_loop fl white_token_price_dict white_token_reserves_dict white_token_derived_eth_dict
     [] token_eth_price_dict = Inr (False, token_eth_price_dict)"
| "liquidity_loop fl white_token_price_dict white_token_reserves_dict white_token_derived_eth_dict
     (block_num # rest) token_eth_price_dict =
     (case (map_of white_token_reserves_dict block_num,
            map_of white_token_derived_eth_dict block_num) of
        (Some reserves, Some derived) \<Rightarrow>
          if fl (reserves * derived) < 1 then Inr (True, token_eth_price_dict)
          else (case map_of white_token_price_dict block_num of
                  Some price \<Rightarrow>
                    liquidity_loop fl white_token_price_dict white_token_reserves_dict
                      white_token_derived_eth_dict rest
                      (AList.update block_num (fl (price * derived)) token_eth_price_dict)
                | None \<Rightarrow> Inl TypeError)
      | _ \<Rightarrow> Inl TypeError)"

text \<open>The loop of lines 217-279 over the whitelist, with \<open>token_eth_price_dict\<close> threaded
  through: reset and \<open>continue\<close> below the minimum liquidity, \<open>break\<close> otherwise.\<close>

fun whitelist_loop ::
  "(rat \<Rightarrow> rat) \<Rightarrow> pricing_env \<Rightarrow> token_metadata \<Rightarrow> int \<Rightarrow> int \<Rightarrow> address list \<Rightarrow> (int \<times> rat) list
     \<Rightarrow> py_error + (int \<times> rat) list" where
  "whitelist_loop fl env token_metadata from_block to_block [] token_eth_price_dict =
     Inr token_eth_price_dict"
| "whitelist_loop fl env token_metadata from_block to_block (white_token # rest)
     token_eth_price_dict =
     (case get_pair env white_token (tok_address token_metadata) of
        Inl e \<Rightarrow> Inl e
      | Inr pairAddress \<Rightarrow>
          if pairAddress \<noteq> zero_address then
            (case get_pair_metadata env pairAddress of
               Inl e \<Rightarrow> Inl e
             | Inr new_pair_metadata \<Rightarrow>
                 (let white_token_metadata =
                        (if white_token = tok_address (token0 new_pair_metadata)
                         then token0 new_pair_metadata else token1 new_pair_metadata)
                  in case get_token_pair_price_and_white_token_reserves fl env pairAddress
                            from_block to_block new_pair_metadata white_token of
                       Inl e \<Rightarrow> Inl e
                     | Inr (white_token_price_dict, white_token_reserves_dict) \<Rightarrow>
                    (case get_token_derived_eth fl env from_block to_block
                            white_token_metadata of
                       Inl e \<Rightarrow> Inl e
                     | Inr white_token_derived_eth_dict \<Rightarrow>
                    (case liquidity_loop fl white_token_price_dict white_token_reserves_dict
                            white_token_derived_eth_dict [from_block .. to_block]
                            token_eth_price_dict of
                       Inl e \<Rightarrow> Inl e
                     | Inr (less_than_minimum_liquidity, filled) \<Rightarrow>
                         if less_than_minimum_liquidity
                         then whitelist_loop fl env token_metadata from_block to_block rest []
                         else Inr filled))))
          else whitelist_loop fl env token_metadata from_block to_block rest
                 token_eth_price_dict)"

text \<open>
  The sorted set of cached prices of one token: its members, the JSON texts of
  \<open>{'blockHeight': height, 'price': price}\<close> (here the pair itself), each with its score.
  \<open>zadd\<close> sets the score of each member of the mapping; \<open>zrangebyscore\<close> returns the members
  with a score in the range, by ascending score (members of equal score are returned in the
  order of the list here, by their text in Redis: the order only decides which of two
  prices cached for one height is kept by the dictionary comprehension).
\<close>

type_synonym price_zset = "((int \<times> rat) \<times> int) list"

definition zadd :: "price_zset \<Rightarrow> ((int \<times> rat) \<times> int) list \<Rightarrow> price_zset" where
  "zadd z mapping = fold (\<lambda>(member, score) acc. AList.update member score acc) mapping z"

definition zrangebyscore :: "price_zset \<Rightarrow> int \<Rightarrow> int \<Rightarrow> (int \<times> rat) list" where
  "zrangebyscore z lo hi =
     map fst (sort_key snd (filter (\<lambda>(member, score). lo \<le> score \<and> score \<le> hi) z))"

text \<open>The test of lines 191-193 on the cached members.\<close>

definition cache_complete :: "(int \<times> rat) list \<Rightarrow> int \<Rightarrow> int \<Rightarrow> bool" where
  "cache_complete cached_price_dict from_block to_block =
     (cached_price_dict \<noteq> [] \<and> int (length cached_price_dict) = to_block - (from_block - 1))"

text \<open>Lines 281-294: the prices in USD from the prices in ETH, or zero at every block.\<close>

definition usd_prices ::
  "(rat \<Rightarrow> rat) \<Rightarrow> pricing_env \<Rightarrow> int \<Rightarrow> int \<Rightarrow> (int \<times> rat) list \<Rightarrow> py_error + (int \<times> rat) list" where
  "usd_prices fl env from_block to_block token_eth_price_dict =
     (if length token_eth_price_dict > 0 then
        (case get_eth_price_usd env from_block to_block of
           Inl e \<Rightarrow> Inl e
         | Inr eth_usd_price_dict \<Rightarrow>
             Inr (fold (\<lambda>block_num d.
                          AList.update block_num
                            (fl ((case map_of token_eth_price_dict block_num of
                                    Some p \<Rightarrow> p | None \<Rightarrow> 0)
                                 * (case map_of eth_usd_price_dict block_num of
                                      Some p \<Rightarrow> p | None \<Rightarrow> 0))) d)
                    [from_block .. to_block] []))
      else Inr (fold (\<lambda>block_num d. AList.update block_num 0 d) [from_block .. to_block] []))"

text \<open>
  \<open>get_token_price_in_block_range\<close> (lines 169-337) for integer block bounds, over the cached
  set of the token: the price dictionary returned and the set afterwards. The store is
  taken to answer.
\<close>

definition get_token_price_in_block_range ::
  "(rat \<Rightarrow> rat) \<Rightarrow> pricing_env \<Rightarrow> price_zset \<Rightarrow> token_metadata \<Rightarrow> int \<Rightarrow> int
     \<Rightarrow> py_error + ((int \<times> rat) list \<times> price_zset)" where
  "get_token_price_in_block_range fl env z token_metadata from_block to_block =
     (let cached_price_dict = zrangebyscore z from_block to_block
      in if cache_complete cached_price_dict from_block to_block then
           Inr (fold (\<lambda>(blockHeight, price) d. AList.update blockHeight price d)
                  cached_price_dict [], z)
         else
           (case (if tok_address token_metadata = WETH env
                  then get_eth_price_usd env from_block to_block
                  else (case whitelist_loop fl env token_metadata from_block to_block
                               (uniswap_v2_whitelist env) [] of
                          Inl e \<Rightarrow> Inl e
                        | Inr token_eth_price_dict \<Rightarrow>
                            usd_prices fl env from_block to_block token_eth_price_dict)) of
              Inl e \<Rightarrow> Inl e
            | Inr token_price_dict \<Rightarrow>
                if length token_price_dict > 0
                then Inr (token_price_dict,
                          zadd z (map (\<lambda>(height, price). ((height, price), height))
                                    token_price_dict))
                else Inr (token_price_dict, z)))"

text \<open>The reserve of the whitelist token at a block, in ETH, as the code computes it
  (the rounded product of the two dictionary entries), is below the minimum liquidity of 1.\<close>

definition reserve_in_eth_below_minimum ::
  "(rat \<Rightarrow> rat) \<Rightarrow> (int \<times> rat) list \<Rightarrow> (int \<times> rat) list \<Rightarrow> int \<Rightarrow> bool" where
  "reserve_in_eth_below_minimum fl white_token_reserves_dict white_token_derived_eth_dict block_num =
     (case (map_of white_token_reserves_dict block_num,
            map_of white_token_derived_eth_dict block_num) of
        (Some reserves, Some derived) \<Rightarrow> fl (reserves * derived) < 1
      | _ \<Rightarrow> False)"

text \<open>The whitelist token has a pair with the token, every query about it is answered, and
  its reserve in ETH is below the minimum at some block of the range.\<close>

definition below_minimum_somewhere ::
  "(rat \<Rightarrow> rat) \<Rightarrow> pricing_env \<Rightarrow> token_metadata \<Rightarrow> int \<Rightarrow> int \<Rightarrow> address \<Rightarrow> bool" where
  "below_minimum_somewhere fl env token_metadata from_block to_block white_token =
     (case get_pair env white_token (tok_address token_metadata) of
        Inl _ \<Rightarrow> False
      | Inr pairAddress \<Rightarrow>
          pairAddress \<noteq> zero_address \<and>
          (case get_pair_metadata env pairAddress of
             Inl _ \<Rightarrow> False
           | Inr new_pair_metadata \<Rightarrow>
               (case get_token_pair_price_and_white_token_reserves fl env pairAddress
                       from_block to_block new_pair_metadata white_token of
                  Inl _ \<Rightarrow> False
                | Inr (white_token_price_dict, white_token_reserves_dict) \<Rightarrow>
                    (case get_token_derived_eth fl env from_block to_block
                            (if white_token = tok_address (token0 new_pair_metadata)
                             then token0 new_pair_metadata else token1 new_pair_metadata) of
                       Inl _ \<Rightarrow> False
                     | Inr white_token_derived_eth_dict \<Rightarrow>
                         list_ex (reserve_in_eth_below_minimum fl white_token_reserves_dict
                                    white_token_derived_eth_dict)
                           [from_block .. to_block]))))"

text \<open>The factory has no pair of the whitelist token with the token.\<close>

definition no_pair :: "pricing_env \<Rightarrow> token_metadata \<Rightarrow> address \<Rightarrow> bool" where
  "no_pair env token_metadata white_token =
     (get_pair env white_token (tok_address token_metadata) = Inr zero_address)"

text \<open>A whitelist of two: the pair with the first holds half a unit of it at block 12 and
  5 at the other blocks, one unit of it buying one ETH; the second has no pair with the
  token.\<close>

definition fallthrough_env :: pricing_env where
  "fallthrough_env =
     \<lparr> WETH = ''0xWETH'',
       uniswap_v2_whitelist = [''0xW1'', ''0xW2''],
       get_pair = (\<lambda>a b. Inr (if a = ''0xW1'' then ''0xP1'' else zero_address)),
       get_pair_metadata = (\<lambda>p. Inr
          \<lparr> token0 = \<lparr> tok_address = ''0xW1'', tok_symbol = ''W1'', tok_decimals = 6 \<rparr>,
            token1 = \<lparr> tok_address = ''0xT'', tok_symbol = ''TKN'', tok_decimals = 18 \<rparr> \<rparr>),
       batch_getReserves =
         (\<lambda>p f t. Inr (map (\<lambda>b. if b = 12 then (5 * 10 ^ 5, 10 ^ 18) else (5 * 10 ^ 6, 10 ^ 18))
                          [f .. t])),
       batch_getAmountsOut = (\<lambda>n a f t. Inr (map (\<lambda>b. [[n, 10 ^ 18]]) [f .. t])),
       get_eth_price_usd = (\<lambda>f t. Inr (map (\<lambda>b. (b, 2000)) [f .. t])) \<rparr>"

text \<open>A pair with WETH itself that holds half a WETH at block 11 and ten at the others.\<close>

definition overlap_env :: pricing_env where
  "overlap_env =
     \<lparr> WETH = ''0xWETH'',
       uniswap_v2_whitelist = [''0xWETH''],
       get_pair = (\<lambda>a b. Inr ''0xPAIR''),
       get_pair_metadata = (\<lambda>p. Inr
          \<lparr> token0 = \<lparr> tok_address = ''0xWETH'', tok_symbol = ''WETH'', tok_decimals = 18 \<rparr>,
            token1 = \<lparr> tok_address = ''0xT'', tok_symbol = ''TKN'', tok_decimals = 18 \<rparr> \<rparr>),
       batch_getReserves =
         (\<lambda>p f t. Inr (map (\<lambda>b. if b = 11 then (5 * 10 ^ 17, 10 ^ 18)
                                  else (10 * 10 ^ 18, 20 * 10 ^ 18)) [f .. t])),
       batch_getAmountsOut = (\<lambda>n a f t. Inl RPCFailure),
       get_eth_price_usd = (\<lambda>f t. Inr (map (\<lambda>b. (b, 2000)) [f .. t])) \<rparr>"

definition token_T :: token_metadata where
  "token_T = \<lparr> tok_address = ''0xT'', tok_symbol = ''TKN'', tok_decimals = 18 \<rparr>"

text \<open>A batch of reserves over the blocks 11 to 13 with an empty side at 11 and at 13.\<close>

definition empty_side_env :: pricing_env where
  "empty_side_env =
     \<lparr> WETH = ''0xWETH'',
       uniswap_v2_whitelist = [''0xWETH''],
       get_pair = (\<lambda>a b. Inr ''0xPAIR''),
       get_pair_metadata = (\<lambda>p. Inl RPCFailure),
       batch_getReserves =
         (\<lambda>p f t. Inr [(0, 5 * 10 ^ 18), (10 * 10 ^ 18, 20 * 10 ^ 18), (3 * 10 ^ 18, 0)]),
       batch_getAmountsOut = (\<lambda>n a f t. Inl RPCFailure),
       get_eth_price_usd = (\<lambda>f t. Inl RPCFailure) \<rparr>"

definition weth_pair_metadata :: pair_metadata where
  "weth_pair_metadata =
     \<lparr> token0 = \<lparr> tok_address = ''0xWETH'', tok_symbol = ''WETH'', tok_decimals = 18 \<rparr>,
       token1 = \<lparr> tok_address = ''0xT'', tok_symbol = ''TKN'', tok_decimals = 18 \<rparr> \<rparr>"

text \<open>A pair with WETH itself that holds \<open>10^18 - 1\<close> base units of WETH, one short of
  one WETH, at every block.\<close>

definition boundary_env :: pricing_env where
  "boundary_env =
     \<lparr> WETH = ''0xWETH'',
       uniswap_v2_whitelist = [''0xWETH''],
       get_pair = (\<lambda>a b. Inr ''0xPAIR''),
       get_pair_metadata = (\<lambda>p. Inr weth_pair_metadata),
       batch_getReserves = (\<lambda>p f t. Inr (map (\<lambda>b. (10 ^ 18 - 1, 10 ^ 18)) [f .. t])),
       batch_getAmountsOut = (\<lambda>n a f t. Inl RPCFailure),
       get_eth_price_usd = (\<lambda>f t. Inr (map (\<lambda>b. (b, 2000)) [f .. t])) \<rparr>"

section \<open>Properties of the rate-limit gate\<close>

lemma check_limits_all_listed:
  "\<forall>l \<in> set limits. hit l = RaisedListed \<Longrightarrow> check_limits limits can = Inr can"
  by (induction limits arbitrary: can) simp_all

text \<open>
  Claim C3. The claim says that a store error during the rate-limit check admits the
  request, so that the reserve fetch still performs its \<open>eth_call\<close>. In the code the flag
  \<open>can_request\<close> starts as \<open>False\<close> and the handler of the Redis errors only logs: with one
  configured limit whose \<open>hit\<close> raises a Redis connection error, the flag is still \<open>False\<close>
  after the loop and the call fails with the exhausted-rate-limit exception, whatever the
  chain would have answered.
\<close>

theorem rate_limit_store_error_is_denied:
  "get_liquidity_of_each_token_reserve_async
     \<lparr> load_rate_limiter_scripts = Inr (),
       PARSED_LIMITS = [\<lparr> hit = RaisedListed, get_window_stats = Returned () \<rparr>],
       get_block = (\<lambda>b. Inr 1700000000),
       get_pair_per_token_metadata = (\<lambda>a. Some
          \<lparr> token0 = \<lparr> tok_address = ''0xA'', tok_symbol = ''AAA'', tok_decimals = 18 \<rparr>,
            token1 = \<lparr> tok_address = ''0xB'', tok_symbol = ''BBB'', tok_decimals = 6 \<rparr> \<rparr>),
       getReserves = (\<lambda>a b n. Inr (1000, 2000)),
       cached_token0Price = None,
       cached_token1Price = None \<rparr>
     ''0xP'' 100 False
   = Inl ExhaustedApiKeyRateLimit"
  by (simp add: get_liquidity_of_each_token_reserve_async_def)

section \<open>Properties of the trade-volume snapshot\<close>

lemmas scenario_defs =
  construct_trade_volume_epoch_snapshot_data_def get_pair_contract_trades_async_def
  swap_scenario_env_def extract_trade_volume_data_def swap_at_105_def mint_at_100_def
  example_metadata_def log_amounts_def recent_trade_usd_def example_msg_def round6_def
  falsy_timestamp_def Let_def

text \<open>
  Claim C1. The claim puts the Swap fee at 0.30 percent of the normalised input amount, so
  that the scenario with one Swap of \<open>amount0In = 10^18\<close> on an 18-decimal token0 priced at
  2 USD has a \<open>total_fee_usd\<close> of 0.006. The code multiplies the normalised amount by the
  literal \<open>0.3\<close> (lines 369 and 373, commented as the Uniswap LP fee rate), thirty percent:
  on that scenario the snapshot holds the volumes 1 and 2000 and the trade total 2 of the
  specification, and a fee of 3/5.
\<close>

theorem swap_fee_is_three_tenths:
  "map_option (\<lambda>s. (ts_token0TradeVolume s, ts_token1TradeVolume s, totalTrade s, totalFee s))
     (snd (construct_trade_volume_epoch_snapshot_data
             (\<lambda>a f t. get_pair_contract_trades_async (swap_scenario_env []) a f t True)
             1700000000 example_msg True))
   = Some (1, 2000, 2, 3 / 5)"
  by (simp add: scenario_defs)

text \<open>
  Claim C4, as stated: the events of a snapshot are in the order of (block number, log
  index). With a Mint at block 100 and a Swap at block 105 in the epoch, the snapshot is
  built and its events are the Swap, then the Mint: not in that order.
\<close>

theorem events_not_in_block_order:
  "map_option (\<lambda>s. events_in_order (events s))
     (snd (construct_trade_volume_epoch_snapshot_data
             (\<lambda>a f t. get_pair_contract_trades_async (swap_scenario_env [mint_at_100]) a f t True)
             1700000000 example_msg True))
   = Some False"
  by (simp add: scenario_defs events_in_order_def event_order_le_def)

lemma build_rets_logs:
  "build_rets env md xs = Inr rets \<Longrightarrow> map (\<lambda>(n, l, t). l) rets = map snd xs"
  by (induction xs arbitrary: rets) (auto split: sum.splits)

lemma sum_events_events:
  "snd (snd (snd (snd (sum_events rets acc)))) =
     snd (snd (snd (snd acc))) @ concat (map (\<lambda>(n, l, t). l) rets)"
  by (induction rets acc rule: sum_events.induct) auto

text \<open>
  Claim C4, amended: the events of a successful trade-volume snapshot are the decoded Swap
  logs of the epoch, then its Mint logs, then its Burn logs, each group in the order in
  which the log query returned it.
\<close>

theorem events_grouped_by_event_name:
  assumes "construct_trade_volume_epoch_snapshot_data
             (\<lambda>a f t. get_pair_contract_trades_async env a f t True) now msg_obj enq
           = (effs, Some snap)"
  shows "\<exists>swaps mints burns.
           get_events_logs env (msg_contract msg_obj) (msg_begin msg_obj) (msg_end msg_obj) Swap
             = Inr swaps
         \<and> get_events_logs env (msg_contract msg_obj) (msg_begin msg_obj) (msg_end msg_obj) Mint
             = Inr mints
         \<and> get_events_logs env (msg_contract msg_obj) (msg_begin msg_obj) (msg_end msg_obj) Burn
             = Inr burns
         \<and> events snap = swaps @ mints @ burns"
proof -
  obtain rets where f: "get_pair_contract_trades_async env (msg_contract msg_obj)
       (msg_begin msg_obj) (msg_end msg_obj) True = Inr rets"
    using assms by (cases "get_pair_contract_trades_async env (msg_contract msg_obj)
       (msg_begin msg_obj) (msg_end msg_obj) True")
      (auto simp: construct_trade_volume_epoch_snapshot_data_def split: if_splits)
  have ev: "events snap = snd (snd (snd (snd (sum_events (rets_events rets) (0, 0, 0, 0, [])))))"
    using assms f
    by (auto simp: construct_trade_volume_epoch_snapshot_data_def split: prod.splits)
  from f obtain swaps mints burns where
    l: "get_events_logs env (msg_contract msg_obj) (msg_begin msg_obj) (msg_end msg_obj) Swap
          = Inr swaps"
       "get_events_logs env (msg_contract msg_obj) (msg_begin msg_obj) (msg_end msg_obj) Mint
          = Inr mints"
       "get_events_logs env (msg_contract msg_obj) (msg_begin msg_obj) (msg_end msg_obj) Burn
          = Inr burns"
    and b: "build_rets env (tr_get_pair_per_token_metadata env (msg_contract msg_obj))
              [(Swap, swaps), (Mint, mints), (Burn, burns)] = Inr (rets_events rets)"
    by (auto simp: get_pair_contract_trades_async_def Let_def split: sum.splits if_splits)
  from build_rets_logs [OF b]
  have "concat (map (\<lambda>(n, l, t). l) (rets_events rets)) = swaps @ mints @ burns"
    by simp
  with ev l show ?thesis by (simp add: sum_events_events)
qed

theorem events_grouped_by_event_name_witness:
  "events (the (snd (construct_trade_volume_epoch_snapshot_data
          (\<lambda>a f t. get_pair_contract_trades_async (swap_scenario_env [mint_at_100]) a f t True)
          1700000000 example_msg True))) = [swap_at_105] @ [mint_at_100] @ []"
proof -
  have "\<exists>effs snap. construct_trade_volume_epoch_snapshot_data
          (\<lambda>a f t. get_pair_contract_trades_async (swap_scenario_env [mint_at_100]) a f t True)
          1700000000 example_msg True = (effs, Some snap)"
    by (simp add: scenario_defs)
  then obtain effs snap where c: "construct_trade_volume_epoch_snapshot_data
          (\<lambda>a f t. get_pair_contract_trades_async (swap_scenario_env [mint_at_100]) a f t True)
          1700000000 example_msg True = (effs, Some snap)" by blast
  from events_grouped_by_event_name [OF c] c show ?thesis
    by (simp add: swap_scenario_env_def)
qed

lemmas worker_defs = on_rabbitmq_message_def commit_trade_volume_def commit_pair_reserves_def
  then_run_def zadd_log_def json_dumps_def make_update_log_def has_message_def
  PairTotalReservesProcessor_def construct_pair_reserves_epoch_snapshot_data_def

section \<open>Properties of the snapshot worker\<close>

text \<open>
  Claim C10. When the reserves build fails and the trade-volume build succeeds, the claim
  says the exception raised by reading \<open>contract\<close> off the absent reserves snapshot is caught
  and recorded as a \<open>TradeVolume.SnapshotCommit\<close> entry with status \<open>Failed\<close>. The read does
  raise and the handler does catch it, and no commit call is made; but the handler puts the
  exception object itself into \<open>update_log\<close>, \<open>json.dumps\<close> raises \<open>TypeError\<close> on it before
  \<open>zadd\<close> is called, and the message handler ends with that exception: the run holds no
  commit call and no \<open>TradeVolume.SnapshotCommit\<close> entry.
\<close>

theorem trade_commit_failure_not_recorded:
  "snd (on_rabbitmq_message failing_reserves_processor (Inr example_msg)) = Some TypeError
   \<and> filter is_trade_commit_record
        (fst (on_rabbitmq_message failing_reserves_processor (Inr example_msg))) = []"
  by (simp add: failing_reserves_processor_def worker_defs scenario_defs is_trade_commit_record_def)

lemma in_then_run:
  "x \<in> set (fst (then_run a b)) \<Longrightarrow> x \<in> set (fst a) \<or> x \<in> set (fst b)"
  by (auto simp: then_run_def split: option.splits)

lemma zadd_log_no_commit: "CommitPayload c s p \<notin> set (fst (zadd_log bid ul))"
  by (auto simp: zadd_log_def split: sum.splits)

lemma commit_pair_reserves_stream:
  "CommitPayload c s p \<in> set (fst (commit_pair_reserves self msg_obj snap))
     \<Longrightarrow> s = ''pair_total_reserves''"
  unfolding commit_pair_reserves_def Let_def
  by (auto dest!: in_then_run simp: zadd_log_no_commit split: sum.splits if_splits)

lemma commit_trade_volume_contract:
  "CommitPayload c s p \<in> set (fst (commit_trade_volume self msg_obj rs_opt snap))
     \<Longrightarrow> \<exists>rs. rs_opt = Some rs \<and> c = rs_contract rs \<and> s = ''trade_volume''
              \<and> p = TradesPayload snap"
  unfolding commit_trade_volume_def Let_def
  by (auto dest!: in_then_run simp: zadd_log_no_commit split: sum.splits if_splits option.splits)

text \<open>
  Claim C5. Every commit the worker makes on the stream \<open>trade_volume\<close> carries the
  \<open>contract\<close> of the reserves snapshot that the reserves builder returned for the message
  (so there is one), not the contract of the message. The builder methods are those of the
  worker object, whatever they are, provided they make no commit call themselves.
\<close>

theorem trade_commit_uses_reserves_contract:
  assumes builders:
      "\<forall>m b. filter is_commit_call (fst (self_construct_pair_reserves_epoch_snapshot_data self m b)) = []"
      "\<forall>m b. filter is_commit_call (fst (self_construct_trade_volume_epoch_snapshot_data self m b)) = []"
    and "CommitPayload c ''trade_volume'' p \<in> set (fst (on_rabbitmq_message self parsed))"
  shows "\<exists>msg_obj effs rs.
           parsed = Inr msg_obj
         \<and> self_construct_pair_reserves_epoch_snapshot_data self msg_obj True = (effs, Some rs)
         \<and> c = rs_contract rs"
proof -
  have nb1: "CommitPayload c ''trade_volume'' p \<notin> set (fst (self_construct_pair_reserves_epoch_snapshot_data self m b))" for m b
  proof
    assume "CommitPayload c ''trade_volume'' p \<in> set (fst (self_construct_pair_reserves_epoch_snapshot_data self m b))"
    then have "CommitPayload c ''trade_volume'' p \<in> set (filter is_commit_call (fst (self_construct_pair_reserves_epoch_snapshot_data self m b)))"
      by (simp add: is_commit_call_def)
    with builders(1) show False by simp
  qed
  have nb2: "CommitPayload c ''trade_volume'' p \<notin> set (fst (self_construct_trade_volume_epoch_snapshot_data self m b))" for m b
  proof
    assume "CommitPayload c ''trade_volume'' p \<in> set (fst (self_construct_trade_volume_epoch_snapshot_data self m b))"
    then have "CommitPayload c ''trade_volume'' p \<in> set (filter is_commit_call (fst (self_construct_trade_volume_epoch_snapshot_data self m b)))"
      by (simp add: is_commit_call_def)
    with builders(2) show False by simp
  qed
  obtain msg_obj where p: "parsed = Inr msg_obj"
    using assms(3) by (cases parsed) (auto simp: on_rabbitmq_message_def dest!: in_then_run)
  obtain effs rsnap where r: "self_construct_pair_reserves_epoch_snapshot_data self msg_obj True = (effs, rsnap)"
    by (cases "self_construct_pair_reserves_epoch_snapshot_data self msg_obj True") auto
  obtain teffs tsnap where t: "self_construct_trade_volume_epoch_snapshot_data self msg_obj True = (teffs, tsnap)"
    by (cases "self_construct_trade_volume_epoch_snapshot_data self msg_obj True") auto
  have e1: "CommitPayload c ''trade_volume'' p \<notin> set effs" using nb1 [of msg_obj True] r by simp
  have e2: "CommitPayload c ''trade_volume'' p \<notin> set teffs" using nb2 [of msg_obj True] t by simp
  from assms(3) p r t e1 e2 obtain snap where
    "tsnap = Some snap" "CommitPayload c ''trade_volume'' p \<in> set (fst (commit_trade_volume self msg_obj rsnap snap))"
    by (auto simp: on_rabbitmq_message_def zadd_log_no_commit dest!: in_then_run commit_pair_reserves_stream split: option.splits)
  from commit_trade_volume_contract [OF this(2)] p r show ?thesis by auto
qed

theorem trade_commit_uses_reserves_contract_witness:
  "\<exists>effs rs.
      self_construct_pair_reserves_epoch_snapshot_data relabelling_processor example_msg True
        = (effs, Some rs)
    \<and> rs_contract rs = ''0xR'' \<and> msg_contract example_msg = ''0xP''"
proof -
  let ?p = "TradesPayload (the (snd (self_construct_trade_volume_epoch_snapshot_data
                                      relabelling_processor example_msg True)))"
  have h1: "\<forall>m b. filter is_commit_call
              (fst (self_construct_pair_reserves_epoch_snapshot_data relabelling_processor m b)) = []"
    by (simp add: relabelling_processor_def)
  have h2: "\<forall>m b. filter is_commit_call
              (fst (self_construct_trade_volume_epoch_snapshot_data relabelling_processor m b)) = []"
    by (auto simp: relabelling_processor_def construct_trade_volume_epoch_snapshot_data_def
          is_commit_call_def split: sum.splits prod.splits)
  have h3: "CommitPayload ''0xR'' ''trade_volume'' ?p
              \<in> set (fst (on_rabbitmq_message relabelling_processor (Inr example_msg)))"
    by (simp add: relabelling_processor_def worker_defs scenario_defs)
  from trade_commit_uses_reserves_contract [OF h1 h2 h3]
  show ?thesis by (auto simp: example_msg_def)
qed

section \<open>Properties of the reserves snapshot\<close>

lemma digit_char_neq_minus: "d < 10 \<Longrightarrow> digit_char d \<noteq> CHR ''-''"
proof
  assume d: "d < 10" and "digit_char d = CHR ''-''"
  then have "(of_char (digit_char d) :: nat) = of_char (CHR ''-'')" by simp
  with d show False by (simp add: digit_char_def)
qed

lemma digit_val_digit_char: "d < 10 \<Longrightarrow> digit_val (digit_char d) = d"
  by (simp add: digit_val_def digit_char_def)

lemma decode_str_nat: "decode_nat (str_nat n) = n"
proof (induction n rule: str_nat.induct)
  case (1 n)
  show ?case
  proof (cases "n < 10")
    case True
    then show ?thesis by (simp add: str_nat.simps [of n] decode_nat_def digit_val_digit_char)
  next
    case False
    with 1 have "decode_nat (str_nat (n div 10)) = n div 10" by simp
    with False show ?thesis
      by (simp add: str_nat.simps [of n] decode_nat_def digit_val_digit_char)
  qed
qed

lemma str_nat_inj: "str_nat a = str_nat b \<Longrightarrow> a = b"
  by (metis decode_str_nat)

lemma str_nat_hd: "\<exists>d cs. d < 10 \<and> str_nat n = digit_char d # cs"
proof (induction n rule: str_nat.induct)
  case (1 n)
  show ?case
  proof (cases "n < 10")
    case True
    then show ?thesis by (auto simp: str_nat.simps [of n])
  next
    case False
    with 1 obtain d cs where "d < 10" "str_nat (n div 10) = digit_char d # cs" by blast
    with False show ?thesis by (auto simp: str_nat.simps [of n])
  qed
qed

lemma str_int_inj: "str_int a = str_int b \<Longrightarrow> a = b"
proof -
  assume eq: "str_int a = str_int b"
  have ne: "CHR ''-'' # xs \<noteq> str_nat n" for xs n
    using str_nat_hd [of n] digit_char_neq_minus by (metis list.inject)
  show ?thesis
  proof (cases "a < 0"; cases "b < 0")
    assume "a < 0" "b < 0"
    with eq have "nat (- a) = nat (- b)" by (auto simp: str_int_def dest: str_nat_inj)
    with \<open>a < 0\<close> \<open>b < 0\<close> show ?thesis by simp
  next
    assume "a < 0" "\<not> b < 0"
    with eq ne show ?thesis by (auto simp: str_int_def)
  next
    assume "\<not> a < 0" "b < 0"
    with eq ne [of _ "nat a"] show ?thesis by (auto simp: str_int_def)
  next
    assume "\<not> a < 0" "\<not> b < 0"
    with eq have "nat a = nat b" by (auto simp: str_int_def dest: str_nat_inj)
    with \<open>\<not> a < 0\<close> \<open>\<not> b < 0\<close> show ?thesis by simp
  qed
qed

lemma block_key_inj: "inj block_key"
  by (auto simp: inj_on_def block_key_def dest: str_int_inj)

lemma update_fresh: "k \<notin> fst ` set al \<Longrightarrow> AList.update k v al = al @ [(k, v)]"
  by (induction al) auto

lemma reserves_loop_keys:
  "reserves_loop fetch msg_obj blocks (m0, m1, ts, lg) = (False, m0', m1', ts', lg')
   \<Longrightarrow> distinct (map fst m0 @ map block_key blocks)
   \<Longrightarrow> map fst m1 = map fst m0
   \<Longrightarrow> map fst m0' = map fst m0 @ map block_key blocks \<and> map fst m1' = map fst m0'"
proof (induction blocks arbitrary: m0 m1 ts lg)
  case Nil
  then show ?case by simp
next
  case (Cons b blocks)
  from Cons.prems(2) have fresh: "block_key b \<notin> fst ` set m0" by auto
  with Cons.prems(3) have fresh1: "block_key b \<notin> fst ` set m1"
    by (metis set_map)
  obtain r where r: "fetch (msg_contract msg_obj) b (b = msg_end msg_obj) = Inr r"
    using Cons.prems(1) by (cases "fetch (msg_contract msg_obj) b (b = msg_end msg_obj)") (auto simp: Let_def)
  let ?m0 = "m0 @ [(block_key b, rt_token0 r)]"
  let ?m1 = "m1 @ [(block_key b, rt_token1 r)]"
  from Cons.prems(1) r fresh fresh1 obtain ts2 lg2 where
    step: "reserves_loop fetch msg_obj blocks (?m0, ?m1, ts2, lg2) = (False, m0', m1', ts', lg')"
    by (auto simp: Let_def update_fresh split: if_splits)
  have d: "distinct (map fst ?m0 @ map block_key blocks)" using Cons.prems(2) by auto
  have e: "map fst ?m1 = map fst ?m0" using Cons.prems(3) by simp
  from Cons.IH [OF step d e] show ?case by simp
qed

text \<open>
  Claim C6. For every reserves snapshot built over an epoch \<open>[b, e]\<close> with \<open>b \<le> e\<close>, the keys
  of \<open>token0Reserves\<close> and of \<open>token1Reserves\<close> are \<open>block{b}\<close>, ..., \<open>block{e}\<close>, one per block
  and pairwise different, so each map has \<open>e - b + 1\<close> entries.
\<close>

theorem reserves_snapshot_keys:
  assumes "construct_pair_reserves_epoch_snapshot_data fetch now msg_obj enq = (effs, Some snap)"
    and "msg_begin msg_obj \<le> msg_end msg_obj"
  shows "map fst (token0Reserves snap) = map block_key [msg_begin msg_obj .. msg_end msg_obj]
       \<and> map fst (token1Reserves snap) = map block_key [msg_begin msg_obj .. msg_end msg_obj]
       \<and> distinct (map block_key [msg_begin msg_obj .. msg_end msg_obj])
       \<and> length (token0Reserves snap) = nat (msg_end msg_obj - msg_begin msg_obj + 1)
       \<and> length (token1Reserves snap) = nat (msg_end msg_obj - msg_begin msg_obj + 1)"
proof -
  let ?blocks = "[msg_begin msg_obj .. msg_end msg_obj]"
  obtain m0 m1 ts lg where
    l: "reserves_loop fetch msg_obj ?blocks ([], [], now, []) = (False, m0, m1, ts, lg)"
    and s: "token0Reserves snap = m0" "token1Reserves snap = m1"
    using assms(1)
    by (auto simp: construct_pair_reserves_epoch_snapshot_data_def split: prod.splits if_splits)
  have d: "distinct (map block_key ?blocks)"
    by (simp add: distinct_map inj_on_subset [OF block_key_inj])
  from reserves_loop_keys [OF l] d
  have k: "map fst m0 = map block_key ?blocks" "map fst m1 = map block_key ?blocks" by auto
  have "length m0 = length ?blocks" "length m1 = length ?blocks"
    using k by (metis length_map)+
  with k d s show ?thesis by simp
qed

lemmas reserves_scenario_defs =
  construct_pair_reserves_epoch_snapshot_data_def get_liquidity_of_each_token_reserve_async_def
  happy_path_env_def example_metadata_def example_msg_def retry3_def falsy_timestamp_def Let_def

lemma digit_chars:
  "digit_char 0 = CHR ''0''" "digit_char 1 = CHR ''1''" "digit_char 2 = CHR ''2''"
  "digit_char 3 = CHR ''3''" "digit_char 4 = CHR ''4''" "digit_char 5 = CHR ''5''"
  "digit_char 6 = CHR ''6''" "digit_char 7 = CHR ''7''" "digit_char 8 = CHR ''8''"
  "digit_char 9 = CHR ''9''" "digit_char (Suc 0) = CHR ''1''"
  unfolding digit_char_def by code_simp+

lemma str_nat_10: "str_nat 10 = ''10''"
  by (simp add: str_nat.simps [of 10] str_nat.simps [of "Suc 0"] digit_chars)

lemma block_keys_100:
  "block_key 100 = ''block100''" "block_key 101 = ''block101''" "block_key 102 = ''block102''"
  "block_key 103 = ''block103''" "block_key 104 = ''block104''" "block_key 105 = ''block105''"
  "block_key 106 = ''block106''" "block_key 107 = ''block107''" "block_key 108 = ''block108''"
  "block_key 109 = ''block109''"
  by (simp_all add: block_key_def str_int_def str_nat.simps [of 100] str_nat.simps [of 101]
        str_nat.simps [of 102] str_nat.simps [of 103] str_nat.simps [of 104]
        str_nat.simps [of 105] str_nat.simps [of 106] str_nat.simps [of 107]
        str_nat.simps [of 108] str_nat.simps [of 109] str_nat_10 digit_chars)

theorem reserves_snapshot_keys_witness:
  "map fst (token0Reserves (the (snd (construct_pair_reserves_epoch_snapshot_data
       (get_liquidity_of_each_token_reserve_async (happy_path_env (\<lambda>b. Inr 1700000000)))
       1700000123 example_msg True))))
   = [''block100'', ''block101'', ''block102'', ''block103'', ''block104'', ''block105'',
      ''block106'', ''block107'', ''block108'', ''block109'']
   \<and> length (token1Reserves (the (snd (construct_pair_reserves_epoch_snapshot_data
       (get_liquidity_of_each_token_reserve_async (happy_path_env (\<lambda>b. Inr 1700000000)))
       1700000123 example_msg True)))) = 10"
proof -
  let ?c = "construct_pair_reserves_epoch_snapshot_data
       (get_liquidity_of_each_token_reserve_async (happy_path_env (\<lambda>b. Inr 1700000000)))
       1700000123 example_msg True"
  have c: "?c = (fst ?c, Some (the (snd ?c)))"
    by (simp add: reserves_scenario_defs)
  have le: "msg_begin example_msg \<le> msg_end example_msg" by (simp add: example_msg_def)
  from reserves_snapshot_keys [OF c le] show ?thesis
    by (simp add: example_msg_def block_keys_100)
qed

lemma reserves_loop_fallback:
  assumes "\<forall>n \<in> set blocks. \<exists>r. fetch (msg_contract msg_obj) n (n = msg_end msg_obj) = Inr r"
    and "fetch (msg_contract msg_obj) (msg_end msg_obj) True = Inr r_end"
    and "rt_timestamp r_end = None"
  shows "\<exists>ma' mb' lg'.
           reserves_loop fetch msg_obj blocks (ma, mb, ts, lg) = (False, ma', mb', ts, lg')
         \<and> set lg \<subseteq> set lg'
         \<and> (msg_end msg_obj \<in> set blocks
              \<longrightarrow> LoggerError ''Could not fetch timestamp for max block height'' \<in> set lg')"
  using assms(1)
proof (induction blocks arbitrary: ma mb lg)
  case Nil
  then show ?case by simp
next
  case (Cons b blocks)
  then have rest: "\<forall>n \<in> set blocks. \<exists>r. fetch (msg_contract msg_obj) n (n = msg_end msg_obj) = Inr r"
    by simp
  show ?case
  proof (cases "b = msg_end msg_obj")
    case True
    let ?lg = "lg @ [LoggerError ''Could not fetch timestamp for max block height'']"
    from Cons.IH [OF rest, of "AList.update (block_key b) (rt_token0 r_end) ma"
        "AList.update (block_key b) (rt_token1 r_end) mb" ?lg]
    obtain ma' mb' lg' where
      "reserves_loop fetch msg_obj blocks
         (AList.update (block_key b) (rt_token0 r_end) ma,
          AList.update (block_key b) (rt_token1 r_end) mb, ts, ?lg) = (False, ma', mb', ts, lg')"
      "set ?lg \<subseteq> set lg'" by blast
    with True assms(2,3) show ?thesis
      by (auto simp: falsy_timestamp_def)
  next
    case False
    from Cons.prems obtain r where r: "fetch (msg_contract msg_obj) b False = Inr r"
      using False by auto
    from Cons.IH [OF rest, of "AList.update (block_key b) (rt_token0 r) ma"
        "AList.update (block_key b) (rt_token1 r) mb" lg]
    show ?thesis using False r by (auto simp: Let_def)
  qed
qed

text \<open>
  Claim C9. If every reserves query of the epoch is answered and the one for the end block
  comes back without a timestamp, the snapshot is built all the same, its timestamp is the
  wall-clock time read at the start of the build, and an error is logged.
\<close>

theorem timestamp_falls_back_to_wall_clock:
  assumes "msg_begin msg_obj \<le> msg_end msg_obj"
    and "\<forall>n \<in> set [msg_begin msg_obj .. msg_end msg_obj].
           \<exists>r. fetch (msg_contract msg_obj) n (n = msg_end msg_obj) = Inr r"
    and "fetch (msg_contract msg_obj) (msg_end msg_obj) True = Inr r_end"
    and "rt_timestamp r_end = None"
  shows "\<exists>effs snap.
           construct_pair_reserves_epoch_snapshot_data fetch now msg_obj enq = (effs, Some snap)
         \<and> rs_timestamp snap = now
         \<and> LoggerError ''Could not fetch timestamp for max block height'' \<in> set effs"
proof -
  have "msg_end msg_obj \<in> set [msg_begin msg_obj .. msg_end msg_obj]"
    using assms(1) by simp
  with reserves_loop_fallback [where fetch = fetch and msg_obj = msg_obj and ma = "[]"
      and mb = "[]" and ts = now and lg = "[]", OF assms(2,3,4)]
  show ?thesis
    by (auto simp: construct_pair_reserves_epoch_snapshot_data_def)
qed

theorem timestamp_falls_back_to_wall_clock_witness:
  "\<exists>effs snap.
      construct_pair_reserves_epoch_snapshot_data
        (get_liquidity_of_each_token_reserve_async (happy_path_env (\<lambda>b. Inl RPCFailure)))
        1700000123 example_msg True = (effs, Some snap)
    \<and> rs_timestamp snap = 1700000123
    \<and> LoggerError ''Could not fetch timestamp for max block height'' \<in> set effs"
proof -
  let ?fetch = "get_liquidity_of_each_token_reserve_async (happy_path_env (\<lambda>b. Inl RPCFailure))"
  let ?r = "\<lparr> rt_token0 = 1000, rt_token1 = 2000, rt_token0USD = 0, rt_token1USD = 0,
              rt_timestamp = None \<rparr>"
  have h1: "msg_begin example_msg \<le> msg_end example_msg" by (simp add: example_msg_def)
  have h2: "\<forall>n \<in> set [msg_begin example_msg .. msg_end example_msg].
           \<exists>r. ?fetch (msg_contract example_msg) n (n = msg_end example_msg) = Inr r"
    by (simp add: reserves_scenario_defs)
  have h3: "?fetch (msg_contract example_msg) (msg_end example_msg) True = Inr ?r"
    by (simp add: reserves_scenario_defs)
  have h4: "rt_timestamp ?r = None" by simp
  from timestamp_falls_back_to_wall_clock [where fetch = ?fetch and msg_obj = example_msg
      and now = 1700000123 and enq = True, OF h1 h2 h3 h4]
  show ?thesis .
qed

section \<open>Properties of the pricing engine\<close>

lemma dom_update_alist: "dom (map_of (AList.update k v al)) = insert k (dom (map_of al))"
  by (simp add: update_conv' dom_def) auto

lemma price_step_cases:
  obtains (zero)
      "fl (of_nat (fst r) / 10 ^ tok_decimals (token0 md)) = (0::rat)
       \<or> fl (of_nat (snd r) / 10 ^ tok_decimals (token1 md)) = (0::rat)"
      "price_step fl md w r b (pd, wd, qs) = Inr (AList.update b 0 pd, AList.update b 0 wd, qs)"
  | (quot) p v x y where
      "fl (of_nat (fst r) / 10 ^ tok_decimals (token0 md)) \<noteq> (0::rat)"
      "fl (of_nat (snd r) / 10 ^ tok_decimals (token1 md)) \<noteq> (0::rat)"
      "y \<noteq> 0"
      "price_step fl md w r b (pd, wd, qs)
         = Inr (AList.update b p pd, AList.update b v wd, qs @ [(b, x, y)])"
  by (cases "fl (of_nat (fst r) / 10 ^ tok_decimals (token0 md)) = (0::rat)
       \<or> fl (of_nat (snd r) / 10 ^ tok_decimals (token1 md)) = (0::rat)";
      cases "tok_address (token0 md) = w")
     (simp_all add: price_step_def py_truediv_def Let_def)

lemma price_loop_dom:
  "index + length blocks \<le> length lst \<Longrightarrow>
   \<exists>pd' wd' qs'.
      price_loop fl md w lst blocks index (pd, wd, qs) = Inr (pd', wd', qs')
    \<and> dom (map_of pd') = dom (map_of pd) \<union> set blocks
    \<and> dom (map_of wd') = dom (map_of wd) \<union> set blocks"
proof (induction blocks arbitrary: index pd wd qs)
  case Nil
  then show ?case by simp
next
  case (Cons b blocks)
  then have idx: "index < length lst" and len: "(index + 1) + length blocks \<le> length lst"
    by auto
  show ?case
  proof (cases rule: price_step_cases [of fl "lst ! index" md w b pd wd qs])
    case zero
    from Cons.IH [OF len, of "AList.update b 0 pd" "AList.update b 0 wd" qs] zero(2) idx
    show ?thesis by (auto simp: dom_update_alist)
  next
    case (quot p v x y)
    from Cons.IH [OF len, of "AList.update b p pd" "AList.update b v wd" "qs @ [(b, x, y)]"]
      quot(4) idx
    show ?thesis by (auto simp: dom_update_alist)
  qed
qed

lemma price_loop_keep:
  "price_loop fl md w lst blocks index (pd, wd, qs) = Inr (pd', wd', qs') \<Longrightarrow> c \<notin> set blocks \<Longrightarrow>
   map_of pd' c = map_of pd c \<and> map_of wd' c = map_of wd c
   \<and> (c \<in> fst ` set qs' \<longrightarrow> c \<in> fst ` set qs)"
proof (induction blocks arbitrary: index pd wd qs)
  case Nil
  then show ?case by simp
next
  case (Cons b blocks)
  from Cons.prems(1) have idx: "index < length lst" by (auto split: if_splits)
  from Cons.prems(2) have cb: "c \<noteq> b" and cn: "c \<notin> set blocks" by auto
  show ?case
  proof (cases rule: price_step_cases [of fl "lst ! index" md w b pd wd qs])
    case zero
    with Cons.prems(1) idx have
      "price_loop fl md w lst blocks (index + 1) (AList.update b 0 pd, AList.update b 0 wd, qs)
         = Inr (pd', wd', qs')" by simp
    from Cons.IH [OF this cn] cb show ?thesis by (simp add: update_conv')
  next
    case (quot p v x y)
    with Cons.prems(1) idx have
      "price_loop fl md w lst blocks (index + 1)
         (AList.update b p pd, AList.update b v wd, qs @ [(b, x, y)]) = Inr (pd', wd', qs')"
      by simp
    from Cons.IH [OF this cn] cb show ?thesis by (auto simp: update_conv')
  qed
qed

lemma price_loop_zero:
  "price_loop fl md w lst blocks index (pd, wd, qs) = Inr (pd', wd', qs') \<Longrightarrow> distinct blocks \<Longrightarrow>
   i < length blocks \<Longrightarrow>
   fl (of_nat (fst (lst ! (index + i))) / 10 ^ tok_decimals (token0 md)) = (0::rat)
     \<or> fl (of_nat (snd (lst ! (index + i))) / 10 ^ tok_decimals (token1 md)) = (0::rat) \<Longrightarrow>
   map_of pd' (blocks ! i) = Some 0 \<and> map_of wd' (blocks ! i) = Some 0
   \<and> (blocks ! i \<in> fst ` set qs' \<longrightarrow> blocks ! i \<in> fst ` set qs)"
proof (induction blocks arbitrary: index pd wd qs i)
  case Nil
  then show ?case by simp
next
  case (Cons b blocks)
  from Cons.prems(1) have idx: "index < length lst" by (auto split: if_splits)
  from Cons.prems(2) have fresh: "b \<notin> set blocks" and dist: "distinct blocks" by auto
  show ?case
  proof (cases i)
    case 0
    with Cons.prems(4) have z: "fl (of_nat (fst (lst ! index)) / 10 ^ tok_decimals (token0 md)) = (0::rat)
       \<or> fl (of_nat (snd (lst ! index)) / 10 ^ tok_decimals (token1 md)) = (0::rat)" by simp
    show ?thesis
    proof (cases rule: price_step_cases [of fl "lst ! index" md w b pd wd qs])
      case zero
      with Cons.prems(1) idx have
        "price_loop fl md w lst blocks (index + 1) (AList.update b 0 pd, AList.update b 0 wd, qs)
           = Inr (pd', wd', qs')" by simp
      from price_loop_keep [OF this fresh] 0 show ?thesis by (simp add: update_conv')
    next
      case (quot p v x y)
      with z show ?thesis by simp
    qed
  next
    case (Suc j)
    with Cons.prems(3) have j: "j < length blocks" by simp
    from Suc Cons.prems(4) have zj:
      "fl (of_nat (fst (lst ! (index + 1 + j))) / 10 ^ tok_decimals (token0 md)) = (0::rat)
       \<or> fl (of_nat (snd (lst ! (index + 1 + j))) / 10 ^ tok_decimals (token1 md)) = (0::rat)"
      by simp
    from j fresh have nb: "blocks ! j \<noteq> b" by (metis nth_mem)
    show ?thesis
    proof (cases rule: price_step_cases [of fl "lst ! index" md w b pd wd qs])
      case zero
      with Cons.prems(1) idx have
        "price_loop fl md w lst blocks (index + 1) (AList.update b 0 pd, AList.update b 0 wd, qs)
           = Inr (pd', wd', qs')" by simp
      from Cons.IH [OF this dist j zj] Suc show ?thesis by simp
    next
      case (quot p v x y)
      with Cons.prems(1) idx have
        "price_loop fl md w lst blocks (index + 1)
           (AList.update b p pd, AList.update b v wd, qs @ [(b, x, y)]) = Inr (pd', wd', qs')"
        by simp
      from Cons.IH [OF this dist j zj] Suc nb show ?thesis by auto
    qed
  qed
qed

lemma price_loop_divisors:
  "price_loop fl md w lst blocks index (pd, wd, qs) = Inr (pd', wd', qs') \<Longrightarrow> q \<in> set qs' \<Longrightarrow>
   q \<in> set qs \<or> snd (snd q) \<noteq> 0"
proof (induction blocks arbitrary: index pd wd qs)
  case Nil
  then show ?case by simp
next
  case (Cons b blocks)
  from Cons.prems(1) have idx: "index < length lst" by (auto split: if_splits)
  show ?case
  proof (cases rule: price_step_cases [of fl "lst ! index" md w b pd wd qs])
    case zero
    with Cons.prems(1) idx have
      "price_loop fl md w lst blocks (index + 1) (AList.update b 0 pd, AList.update b 0 wd, qs)
         = Inr (pd', wd', qs')" by simp
    from Cons.IH [OF this Cons.prems(2)] show ?thesis .
  next
    case (quot p v x y)
    with Cons.prems(1) idx have
      "price_loop fl md w lst blocks (index + 1)
         (AList.update b p pd, AList.update b v wd, qs @ [(b, x, y)]) = Inr (pd', wd', qs')"
      by simp
    from Cons.IH [OF this Cons.prems(2)] quot(3) show ?thesis by auto
  qed
qed

text \<open>
  Claim C8. When the batch holds a result for every block of the range, the per-block
  computation returns its two dictionaries without an exception, with an entry for every
  block of the range; at every block where a scaled reserve, as the code computes it, is
  zero the token price and the reserve of the whitelisted token are 0 and no price quotient
  is evaluated, and no quotient that is evaluated has a zero divisor. This holds whatever
  the rounding \<open>fl\<close> of the float operations is.
\<close>

theorem zero_reserve_blocks_priced_zero:
  assumes "batch_getReserves env pair_address f t = Inr lst"
    and "t - (f - 1) \<le> int (length lst)"
  shows "\<exists>pd wd qs.
           price_loop fl md w lst [f .. t] 0 ([], [], []) = Inr (pd, wd, qs)
         \<and> get_token_pair_price_and_white_token_reserves fl env pair_address f t md w = Inr (pd, wd)
         \<and> dom (map_of pd) = {f .. t} \<and> dom (map_of wd) = {f .. t}
         \<and> (\<forall>b \<in> {f .. t}.
              fl (of_nat (fst (lst ! nat (b - f))) / 10 ^ tok_decimals (token0 md)) = (0::rat)
              \<or> fl (of_nat (snd (lst ! nat (b - f))) / 10 ^ tok_decimals (token1 md)) = (0::rat)
              \<longrightarrow> map_of pd b = Some 0 \<and> map_of wd b = Some 0 \<and> b \<notin> fst ` set qs)
         \<and> (\<forall>q \<in> set qs. snd (snd q) \<noteq> 0)"
proof -
  have len: "0 + length [f .. t] \<le> length lst" using assms(2) by simp
  from price_loop_dom [OF len, of fl md w "[]" "[]" "[]"] obtain pd wd qs where
    r: "price_loop fl md w lst [f .. t] 0 ([], [], []) = Inr (pd, wd, qs)"
    and d: "dom (map_of pd) = {f .. t}" "dom (map_of wd) = {f .. t}" by auto
  have g: "get_token_pair_price_and_white_token_reserves fl env pair_address f t md w = Inr (pd, wd)"
    using assms r by (simp add: get_token_pair_price_and_white_token_reserves_def)
  have z: "map_of pd b = Some 0 \<and> map_of wd b = Some 0 \<and> b \<notin> fst ` set qs"
    if b: "b \<in> {f .. t}"
      and zr: "fl (of_nat (fst (lst ! nat (b - f))) / 10 ^ tok_decimals (token0 md)) = (0::rat)
              \<or> fl (of_nat (snd (lst ! nat (b - f))) / 10 ^ tok_decimals (token1 md)) = (0::rat)" for b
  proof -
    from b have i: "nat (b - f) < length [f .. t]" by simp
    from b have n: "[f .. t] ! nat (b - f) = b" by simp
    from price_loop_zero [OF r distinct_upto i] zr n show ?thesis by simp
  qed
  have q: "snd (snd x) \<noteq> 0" if "x \<in> set qs" for x
    using price_loop_divisors [OF r that] by simp
  from r g d z q show ?thesis by blast
qed

theorem zero_reserve_blocks_priced_zero_witness:
  "\<exists>pd wd. get_token_pair_price_and_white_token_reserves no_rounding empty_side_env ''0xPAIR'' 11 13
               weth_pair_metadata ''0xWETH'' = Inr (pd, wd)
     \<and> map fst pd = [11, 12, 13]
     \<and> map_of pd 11 = Some 0 \<and> map_of wd 11 = Some 0
     \<and> map_of pd 13 = Some 0 \<and> map_of wd 13 = Some 0"
proof -
  let ?lst = "[(0, 5 * 10 ^ 18), (10 * 10 ^ 18, 20 * 10 ^ 18), (3 * 10 ^ 18, 0)] :: (nat \<times> nat) list"
  have h1: "batch_getReserves empty_side_env ''0xPAIR'' 11 13 = Inr ?lst"
    by (simp add: empty_side_env_def)
  have h2: "(13::int) - (11 - 1) \<le> int (length ?lst)" by simp
  from zero_reserve_blocks_priced_zero [OF h1 h2, of no_rounding weth_pair_metadata "''0xWETH''"]
  obtain pd wd and qs :: "(int \<times> rat \<times> rat) list" where
    g: "get_token_pair_price_and_white_token_reserves no_rounding empty_side_env ''0xPAIR'' 11 13
          weth_pair_metadata ''0xWETH'' = Inr (pd, wd)"
    and z: "\<forall>b \<in> {11 .. 13}.
              no_rounding (of_nat (fst (?lst ! nat (b - 11))) / 10 ^ tok_decimals (token0 weth_pair_metadata)) = (0::rat)
              \<or> no_rounding (of_nat (snd (?lst ! nat (b - 11))) / 10 ^ tok_decimals (token1 weth_pair_metadata)) = (0::rat)
              \<longrightarrow> map_of pd b = Some 0 \<and> map_of wd b = Some 0 \<and> b \<notin> fst ` set qs"
    by (elim exE conjE) (rule that; assumption)
  from z have "map_of pd 11 = Some 0 \<and> map_of wd 11 = Some 0"
    by (simp add: no_rounding_def)
  moreover from z have "map_of pd 13 = Some 0 \<and> map_of wd 13 = Some 0"
    by (simp add: no_rounding_def)
  moreover from g have "map fst pd = [11, 12, 13]"
    by (auto simp: get_token_pair_price_and_white_token_reserves_def empty_side_env_def
          weth_pair_metadata_def price_step_def py_truediv_def no_rounding_def Let_def)
  ultimately show ?thesis using g by simp
qed

lemma fold_update_fresh:
  "distinct ks \<Longrightarrow> set ks \<inter> fst ` set al = {} \<Longrightarrow>
   fold (\<lambda>k d. AList.update k (g k) d) ks al = al @ map (\<lambda>k. (k, g k)) ks"
proof (induction ks arbitrary: al)
  case Nil
  then show ?case by simp
next
  case (Cons k ks)
  then have f: "k \<notin> fst ` set al" by auto
  have "set ks \<inter> fst ` set (al @ [(k, g k)]) = {}" using Cons.prems by auto
  with Cons have "fold (\<lambda>k d. AList.update k (g k) d) ks (al @ [(k, g k)])
                  = (al @ [(k, g k)]) @ map (\<lambda>k. (k, g k)) ks" by simp
  with f show ?case by (simp add: update_fresh)
qed

lemma fold_update_upto:
  "fold (\<lambda>k d. AList.update k (g k) d) [f .. t] [] = map (\<lambda>k. (k, g k)) [f .. t]"
  using fold_update_fresh [of "[f .. t]" "[]" g] by simp

lemma derived_eth_loop_dom:
  "derived_eth_loop fl lst blocks index d = Inr d' \<Longrightarrow>
   dom (map_of d') = dom (map_of d) \<union> set blocks"
proof (induction blocks arbitrary: index d)
  case Nil
  then show ?case by simp
next
  case (Cons b blocks)
  from Cons.prems obtain v where
    "derived_eth_loop fl lst blocks (index + 1) (AList.update b v d) = Inr d'"
    by (auto split: if_splits list.splits)
  from Cons.IH [OF this] show ?case by (auto simp: dom_update_alist)
qed

lemma get_token_derived_eth_dom:
  "get_token_derived_eth fl env f t wm = Inr wd \<Longrightarrow> dom (map_of wd) = {f .. t}"
proof (cases "tok_address wm = WETH env")
  case True
  assume "get_token_derived_eth fl env f t wm = Inr wd"
  with True have "wd = map (\<lambda>k. (k, 1)) [f .. t]"
    by (simp add: get_token_derived_eth_def fold_update_upto)
  then show ?thesis by (auto simp: dom_map_of_conv_image_fst image_image)
next
  case False
  assume "get_token_derived_eth fl env f t wm = Inr wd"
  with False obtain lst where "derived_eth_loop fl lst [f .. t] 0 [] = Inr wd"
    by (auto simp: get_token_derived_eth_def split: sum.splits if_splits)
  from derived_eth_loop_dom [OF this] show ?thesis by simp
qed

lemma pair_price_dom:
  assumes "get_token_pair_price_and_white_token_reserves fl env pair_address f t md w = Inr (wp, wr)"
  shows "dom (map_of wp) = {f .. t} \<and> dom (map_of wr) = {f .. t}"
proof -
  from assms obtain lst where l: "batch_getReserves env pair_address f t = Inr lst"
    and n: "t - (f - 1) \<le> int (length lst)"
    by (auto simp: get_token_pair_price_and_white_token_reserves_def split: sum.splits if_splits)
  from zero_reserve_blocks_priced_zero [OF l n, of fl md w] assms show ?thesis by auto
qed

lemma liquidity_loop_below:
  assumes "set blocks \<subseteq> dom (map_of wp)" "set blocks \<subseteq> dom (map_of wr)"
    "set blocks \<subseteq> dom (map_of wd)" "list_ex (reserve_in_eth_below_minimum fl wr wd) blocks"
  shows "\<exists>d'. liquidity_loop fl wp wr wd blocks d = Inr (True, d')"
  using assms
proof (induction blocks arbitrary: d)
  case Nil
  then show ?case by simp
next
  case (Cons b blocks)
  from Cons.prems(1,2,3) obtain p r e where
    v: "map_of wp b = Some p" "map_of wr b = Some r" "map_of wd b = Some e" by auto
  show ?case
  proof (cases "fl (r * e) < 1")
    case True
    with v show ?thesis by simp
  next
    case False
    with v have "\<not> reserve_in_eth_below_minimum fl wr wd b"
      by (simp add: reserve_in_eth_below_minimum_def)
    with Cons.prems(4) have "list_ex (reserve_in_eth_below_minimum fl wr wd) blocks"
      by simp
    with Cons.IH [of "AList.update b (fl (p * e)) d"] Cons.prems(1,2,3) v False
    show ?thesis by simp
  qed
qed

lemma below_minimum_is_skipped:
  assumes "below_minimum_somewhere fl env tm f t W"
  shows "whitelist_loop fl env tm f t (W # rest) d = whitelist_loop fl env tm f t rest []"
proof -
  let ?wm = "\<lambda>md. if W = tok_address (token0 md) then token0 md else token1 md"
  obtain pairAddress where p1: "get_pair env W (tok_address tm) = Inr pairAddress"
    using assms by (cases "get_pair env W (tok_address tm)")
      (simp_all add: below_minimum_somewhere_def)
  with assms have p2: "pairAddress \<noteq> zero_address"
    and a1: "(case get_pair_metadata env pairAddress of
             Inl _ \<Rightarrow> False
           | Inr new_pair_metadata \<Rightarrow>
               (case get_token_pair_price_and_white_token_reserves fl env pairAddress
                       f t new_pair_metadata W of
                  Inl _ \<Rightarrow> False
                | Inr (white_token_price_dict, white_token_reserves_dict) \<Rightarrow>
                    (case get_token_derived_eth fl env f t (?wm new_pair_metadata) of
                       Inl _ \<Rightarrow> False
                     | Inr white_token_derived_eth_dict \<Rightarrow>
                         list_ex (reserve_in_eth_below_minimum fl white_token_reserves_dict
                                    white_token_derived_eth_dict)
                           [f .. t])))"
    by (simp_all add: below_minimum_somewhere_def)
  obtain md where m: "get_pair_metadata env pairAddress = Inr md"
    using a1 by (cases "get_pair_metadata env pairAddress") simp_all
  with a1 have a2: "(case get_token_pair_price_and_white_token_reserves fl env pairAddress
                       f t md W of
                  Inl _ \<Rightarrow> False
                | Inr (white_token_price_dict, white_token_reserves_dict) \<Rightarrow>
                    (case get_token_derived_eth fl env f t (?wm md) of
                       Inl _ \<Rightarrow> False
                     | Inr white_token_derived_eth_dict \<Rightarrow>
                         list_ex (reserve_in_eth_below_minimum fl white_token_reserves_dict
                                    white_token_derived_eth_dict)
                           [f .. t]))"
    by simp
  obtain wp wr where
    g: "get_token_pair_price_and_white_token_reserves fl env pairAddress f t md W = Inr (wp, wr)"
    using a2 by (cases "get_token_pair_price_and_white_token_reserves fl env pairAddress f t md W")
      auto
  with a2 have a3: "(case get_token_derived_eth fl env f t (?wm md) of
                       Inl _ \<Rightarrow> False
                     | Inr white_token_derived_eth_dict \<Rightarrow>
                         list_ex (reserve_in_eth_below_minimum fl wr white_token_derived_eth_dict)
                           [f .. t])"
    by simp
  obtain wd where e: "get_token_derived_eth fl env f t (?wm md) = Inr wd"
    using a3 by (cases "get_token_derived_eth fl env f t (?wm md)") simp_all
  with a3 have b: "list_ex (reserve_in_eth_below_minimum fl wr wd) [f .. t]" by simp
  note p = p1 p2
  from pair_price_dom [OF g] get_token_derived_eth_dom [OF e]
  have "set [f .. t] \<subseteq> dom (map_of wp)" "set [f .. t] \<subseteq> dom (map_of wr)"
    "set [f .. t] \<subseteq> dom (map_of wd)" by auto
  from liquidity_loop_below [OF this b, of d] obtain d' where
    "liquidity_loop fl wp wr wd [f .. t] d = Inr (True, d')" by blast
  with p m g e show ?thesis by (simp add: Let_def)
qed

lemma liquidity_loop_above:
  assumes "set blocks \<subseteq> dom (map_of wp)" "set blocks \<subseteq> dom (map_of wr)"
    "set blocks \<subseteq> dom (map_of wd)"
    "\<not> list_ex (reserve_in_eth_below_minimum fl wr wd) blocks"
    "distinct blocks" "set blocks \<inter> fst ` set d = {}"
  shows "\<exists>d'. liquidity_loop fl wp wr wd blocks d = Inr (False, d')
              \<and> map fst d' = map fst d @ blocks"
  using assms
proof (induction blocks arbitrary: d)
  case Nil
  then show ?case by simp
next
  case (Cons b blocks)
  from Cons.prems(1,2,3) obtain p r e where
    v: "map_of wp b = Some p" "map_of wr b = Some r" "map_of wd b = Some e" by auto
  from Cons.prems(4) have nb: "\<not> reserve_in_eth_below_minimum fl wr wd b"
    and rest: "\<not> list_ex (reserve_in_eth_below_minimum fl wr wd) blocks"
    by simp_all
  from nb v have above: "\<not> fl (r * e) < 1"
    by (simp add: reserve_in_eth_below_minimum_def)
  from Cons.prems(6) have fresh: "b \<notin> fst ` set d" by auto
  let ?d = "d @ [(b, fl (p * e))]"
  have disj: "set blocks \<inter> fst ` set ?d = {}" using Cons.prems(5,6) by auto
  from Cons.IH [of ?d] Cons.prems(1,2,3,5) rest disj obtain d' where
    "liquidity_loop fl wp wr wd blocks ?d = Inr (False, d')" "map fst d' = map fst ?d @ blocks"
    by auto
  with v above fresh show ?case by (simp add: update_fresh)
qed

lemma at_or_above_minimum_is_kept:
  assumes "get_pair env W (tok_address tm) = Inr pairAddress" "pairAddress \<noteq> zero_address"
    and "get_pair_metadata env pairAddress = Inr md"
    and "get_token_pair_price_and_white_token_reserves fl env pairAddress f t md W = Inr (wp, wr)"
    and "get_token_derived_eth fl env f t
           (if W = tok_address (token0 md) then token0 md else token1 md) = Inr wd"
    and "\<not> list_ex (reserve_in_eth_below_minimum fl wr wd) [f .. t]"
  shows "\<exists>filled. whitelist_loop fl env tm f t (W # rest) [] = Inr filled
                 \<and> map fst filled = [f .. t]"
proof -
  from pair_price_dom [OF assms(4)] get_token_derived_eth_dom [OF assms(5)]
  have "set [f .. t] \<subseteq> dom (map_of wp)" "set [f .. t] \<subseteq> dom (map_of wr)"
    "set [f .. t] \<subseteq> dom (map_of wd)" by auto
  from liquidity_loop_above [OF this assms(6) distinct_upto, of "[]"] obtain filled where
    "liquidity_loop fl wp wr wd [f .. t] [] = Inr (False, filled)" "map fst filled = [f .. t]"
    by auto
  with assms(1-5) show ?thesis by (simp add: Let_def)
qed

lemma whitelist_all_fail:
  "list_all (\<lambda>W. no_pair env tm W \<or> below_minimum_somewhere fl env tm f t W) ws \<Longrightarrow>
   whitelist_loop fl env tm f t ws [] = Inr []"
proof (induction ws)
  case Nil
  then show ?case by simp
next
  case (Cons W ws)
  then have ih: "whitelist_loop fl env tm f t ws [] = Inr []" by simp
  from Cons.prems consider "no_pair env tm W" | "below_minimum_somewhere fl env tm f t W" by auto
  then show ?case
  proof cases
    case 1
    with ih show ?thesis by (simp add: no_pair_def)
  next
    case 2
    from below_minimum_is_skipped [OF this] ih show ?thesis by simp
  qed
qed

text \<open>
  Claim C2. A whitelist token whose reserve in ETH, as the code computes it in doubles (the
  rounded product of the rounded scaled reserve and the derived ETH), is below 1 at some
  block of the range contributes nothing: the cascade goes on with the rest of the
  whitelist from an empty dictionary, whatever had been filled in. And for a token other
  than WETH whose cached prices do not cover the range, if every whitelist token either has
  no pair with the token or is below the minimum at some block, the price returned is 0 at
  every block of the range. This holds whatever the rounding \<open>fl\<close> of the float operations
  is, so for the rounding to the nearest double of the code; a whitelist token that is at or
  above the minimum at every block is kept (\<open>at_or_above_minimum_is_kept\<close>).
\<close>

theorem whitelist_below_minimum_is_abandoned:
  "(below_minimum_somewhere fl env tm f t W \<longrightarrow>
      whitelist_loop fl env tm f t (W # rest) d = whitelist_loop fl env tm f t rest [])
   \<and> (tok_address tm \<noteq> WETH env
      \<and> \<not> cache_complete (zrangebyscore z f t) f t
      \<and> list_all (\<lambda>W. no_pair env tm W \<or> below_minimum_somewhere fl env tm f t W)
            (uniswap_v2_whitelist env)
      \<longrightarrow> (\<exists>z'. get_token_price_in_block_range fl env z tm f t
                  = Inr (map (\<lambda>block_num. (block_num, 0)) [f .. t], z')))"
proof (intro conjI impI)
  assume "below_minimum_somewhere fl env tm f t W"
  then show "whitelist_loop fl env tm f t (W # rest) d = whitelist_loop fl env tm f t rest []"
    by (rule below_minimum_is_skipped)
next
  assume a: "tok_address tm \<noteq> WETH env
      \<and> \<not> cache_complete (zrangebyscore z f t) f t
      \<and> list_all (\<lambda>W. no_pair env tm W \<or> below_minimum_somewhere fl env tm f t W)
            (uniswap_v2_whitelist env)"
  then have w: "whitelist_loop fl env tm f t (uniswap_v2_whitelist env) [] = Inr []"
    by (simp add: whitelist_all_fail)
  have u: "usd_prices fl env f t [] = Inr (map (\<lambda>block_num. (block_num, 0)) [f .. t])"
    by (simp add: usd_prices_def fold_update_upto)
  from a w u show "\<exists>z'. get_token_price_in_block_range fl env z tm f t
                  = Inr (map (\<lambda>block_num. (block_num, 0)) [f .. t], z')"
    by (simp add: get_token_price_in_block_range_def Let_def)
qed

lemmas pricing_defs = get_token_price_in_block_range_def zrangebyscore_def cache_complete_def
  usd_prices_def zadd_def get_token_derived_eth_def
  get_token_pair_price_and_white_token_reserves_def price_step_def py_truediv_def
  zero_address_def tokens_decimals_WETH_def token_T_def no_rounding_def Let_def

theorem whitelist_below_minimum_is_abandoned_witness:
  "whitelist_loop no_rounding fallthrough_env token_T 11 13 [''0xW1'', ''0xW2''] []
     = whitelist_loop no_rounding fallthrough_env token_T 11 13 [''0xW2''] []
   \<and> (\<exists>z'. get_token_price_in_block_range no_rounding fallthrough_env [] token_T 11 13
              = Inr ([(11, 0), (12, 0), (13, 0)], z'))"
proof -
  have a: "below_minimum_somewhere no_rounding fallthrough_env token_T 11 13 ''0xW1''"
    by (simp add: below_minimum_somewhere_def reserve_in_eth_below_minimum_def
          fallthrough_env_def pricing_defs)
  have n: "no_pair fallthrough_env token_T ''0xW2''"
    by (simp add: no_pair_def fallthrough_env_def)
  have w: "uniswap_v2_whitelist fallthrough_env = [''0xW1'', ''0xW2'']"
    by (simp add: fallthrough_env_def)
  have h: "tok_address token_T \<noteq> WETH fallthrough_env
      \<and> \<not> cache_complete (zrangebyscore [] 11 13) 11 13
      \<and> list_all (\<lambda>W. no_pair fallthrough_env token_T W
                        \<or> below_minimum_somewhere no_rounding fallthrough_env token_T 11 13 W)
            (uniswap_v2_whitelist fallthrough_env)"
    using a n by (simp add: w) (simp add: fallthrough_env_def token_T_def cache_complete_def
       zrangebyscore_def)
  note t = whitelist_below_minimum_is_abandoned [of no_rounding fallthrough_env token_T 11 13
      "''0xW1''"
      "[''0xW2'']" "[]" "[]"]
  from t a have c1: "whitelist_loop no_rounding fallthrough_env token_T 11 13 [''0xW1'', ''0xW2''] []
     = whitelist_loop no_rounding fallthrough_env token_T 11 13 [''0xW2''] []" by blast
  from t h have "\<exists>z'. get_token_price_in_block_range no_rounding fallthrough_env [] token_T 11 13
              = Inr (map (\<lambda>block_num. (block_num, 0)) [11 .. 13], z')" by blast
  then have c2: "\<exists>z'. get_token_price_in_block_range no_rounding fallthrough_env [] token_T 11 13
              = Inr ([(11, 0), (12, 0), (13, 0)], z')" by simp
  from c1 c2 show ?thesis by blast
qed

text \<open>
  At the boundary the rounding decides. The quotient \<open>(10^18 - 1) / 10^18\<close> is below 1, and
  the nearest double to it is 1. For every rounding that takes it to 1 (and leaves 1 and
  2000 as they are), the whitelist token is kept and the token is priced at 2000, as the
  code does.
\<close>

lemma reserve_rounded_up_to_minimum_is_kept:
  assumes "fl (999999999999999999 / 1000000000000000000) = 1" and "fl 1 = 1"
    and "fl 2000 = 2000"
  shows "get_token_price_in_block_range fl boundary_env [] token_T 11 11
           = Inr ([(11, 2000)], [((11, 2000), 11)])"
  using assms
  by (simp add: get_token_price_in_block_range_def zrangebyscore_def cache_complete_def
        usd_prices_def zadd_def get_token_derived_eth_def
        get_token_pair_price_and_white_token_reserves_def price_step_def py_truediv_def
        zero_address_def token_T_def boundary_env_def weth_pair_metadata_def Let_def)

lemma recompute_keys:
  assumes "\<not> cache_complete (zrangebyscore z f t) f t"
    and "tok_address tm \<noteq> WETH env"
    and "get_token_price_in_block_range fl env z tm f t = Inr (prices, z')"
  shows "map fst prices = [f .. t]"
proof -
  from assms obtain d where
    u: "usd_prices fl env f t d = Inr prices"
    by (auto simp: get_token_price_in_block_range_def Let_def split: sum.splits if_splits)
  then show ?thesis
    by (auto simp: usd_prices_def fold_update_upto comp_def split: if_splits sum.splits)
qed

text \<open>
  Claim C7. The claim gives the price map the key set \<open>{from, ..., to}\<close> on the cache-hit path
  as on the recompute path. On the recompute path it holds (\<open>recompute_keys\<close>). The cache-hit
  path accepts the cached members when their number is \<open>to - from + 1\<close>, and a height can
  be cached under two prices. Three calls on one chain: the range 11 to 12 is priced at zero
  (the liquidity at block 11 is below the minimum) and cached; the range 12 to 13 is priced
  at 1000 and cached, so that height 12 now has two members; the range 11 to 14 then finds
  four members, takes the cache for complete, and returns a map without block 14. Every
  number computed on the way (0.5, 10, 20, 1000, 2000) is a double, so nothing is rounded.
\<close>

theorem cache_hit_misses_a_block:
  "(case get_token_price_in_block_range no_rounding overlap_env [] token_T 11 12 of
      Inl e \<Rightarrow> None
    | Inr (prices1, z1) \<Rightarrow>
        (case get_token_price_in_block_range no_rounding overlap_env z1 token_T 12 13 of
           Inl e \<Rightarrow> None
         | Inr (prices2, z2) \<Rightarrow>
             (case get_token_price_in_block_range no_rounding overlap_env z2 token_T 11 14 of
                Inl e \<Rightarrow> None
              | Inr (prices3, z3) \<Rightarrow> Some (map fst prices3))))
   = Some [11, 12, 13]"
proof -
  have c1: "get_token_price_in_block_range no_rounding overlap_env [] token_T 11 12
              = Inr ([(11, 0), (12, 0)], [((11, 0), 11), ((12, 0), 12)])"
    by (simp add: pricing_defs overlap_env_def)
  have c2: "get_token_price_in_block_range no_rounding overlap_env [((11, 0), 11), ((12, 0), 12)] token_T 12 13
              = Inr ([(12, 1000), (13, 1000)],
                     [((11, 0), 11), ((12, 0), 12), ((12, 1000), 12), ((13, 1000), 13)])"
    by (simp add: pricing_defs overlap_env_def)
  have c3: "get_token_price_in_block_range no_rounding overlap_env
              [((11, 0), 11), ((12, 0), 12), ((12, 1000), 12), ((13, 1000), 13)] token_T 11 14
              = Inr ([(11, 0), (12, 1000), (13, 1000)],
                     [((11, 0), 11), ((12, 0), 12), ((12, 1000), 12), ((13, 1000), 13)])"
    by (simp add: pricing_defs overlap_env_def)
  show ?thesis by (simp add: c1 c2 c3)
qed


end
